theory Spec2Isabelle
  imports Main
begin

section \<open>Python strings\<close>

text \<open>
  A Python \<open>str\<close> is modelled as a \<open>string\<close> whose characters are code points below 256.
  File contents are the text that Python's text mode hands to the program (after decoding
  and newline translation); a file whose bytes cannot be decoded is a node of its own.
\<close>

definition isspace :: "char \<Rightarrow> bool" where
  \<comment> \<open>\<open>str.isspace\<close> on one character: tab, LF, VT, FF, CR, FS, GS, RS, US, space, NEL, NBSP.\<close>
  "isspace c =
     (c = CHR 0x09 \<or> c = CHR 0x0A \<or> c = CHR 0x0B \<or> c = CHR 0x0C \<or> c = CHR 0x0D \<or>
      c = CHR 0x1C \<or> c = CHR 0x1D \<or> c = CHR 0x1E \<or> c = CHR 0x1F \<or> c = CHR 0x20 \<or>
      c = CHR 0x85 \<or> c = CHR 0xA0)"

definition strip :: "string \<Rightarrow> string" where
  \<comment> \<open>\<open>s.strip()\<close>\<close>
  "strip s = rev (dropWhile isspace (rev (dropWhile isspace s)))"

fun split_acc :: "string \<Rightarrow> string \<Rightarrow> string list" where
  "split_acc cur [] = (if cur = [] then [] else [cur])"
| "split_acc cur (c # cs) =
     (if isspace c then (if cur = [] then split_acc [] cs else cur # split_acc [] cs)
      else split_acc (cur @ [c]) cs)"

definition py_split :: "string \<Rightarrow> string list" where
  \<comment> \<open>\<open>s.split()\<close>: the maximal runs of non-whitespace characters.\<close>
  "py_split s = split_acc [] s"

fun split_on :: "char \<Rightarrow> string \<Rightarrow> string list" where
  \<comment> \<open>\<open>s.split(sep)\<close> for a one-character separator; the result is never empty.\<close>
  "split_on sep [] = [[]]"
| "split_on sep (c # cs) =
     (if c = sep then [] # split_on sep cs
      else (case split_on sep cs of [] \<Rightarrow> [[c]] | w # ws \<Rightarrow> (c # w) # ws))"

fun startswith :: "string \<Rightarrow> string \<Rightarrow> bool" where
  \<comment> \<open>\<open>s.startswith(p)\<close>\<close>
  "startswith s [] = True"
| "startswith [] (p # ps) = False"
| "startswith (c # cs) (p # ps) = (c = p \<and> startswith cs ps)"

fun str_in :: "string \<Rightarrow> string \<Rightarrow> bool" where
  \<comment> \<open>\<open>sub in s\<close>\<close>
  "str_in sub [] = (sub = [])"
| "str_in sub (c # cs) = (startswith (c # cs) sub \<or> str_in sub cs)"

fun lines_acc :: "string \<Rightarrow> string \<Rightarrow> string list" where
  "lines_acc cur [] = (if cur = [] then [] else [cur])"
| "lines_acc cur (c # cs) =
     (if c = CHR 0x0A then (cur @ [c]) # lines_acc [] cs else lines_acc (cur @ [c]) cs)"

definition readlines :: "string \<Rightarrow> string list" where
  \<comment> \<open>\<open>for line in f\<close>: the lines of a text file, each with its terminating newline.\<close>
  "readlines content = lines_acc [] content"

section \<open>The host: file system and commands\<close>

datatype fs_node =
    Absent                  \<comment> \<open>nothing at this path (or not visible to the probe)\<close>
  | Regular string          \<comment> \<open>a readable regular file and its text\<close>
  | Denied                  \<comment> \<open>a regular file that the probe may not open\<close>
  | Garbled string          \<comment> \<open>a regular file whose bytes are not text: it opens, and reading
                                it raises \<open>UnicodeDecodeError\<close> with this message\<close>
  | Folder "string list"    \<comment> \<open>a directory and the names in it\<close>
  | Locked_Folder           \<comment> \<open>a directory that the probe may not list\<close>

datatype cmd_result =
    Completed int string string   \<comment> \<open>the child exited: \<open>(rc, out, err)\<close>\<close>
  | Stalled                       \<comment> \<open>the child never exits\<close>
  | Unlaunchable string           \<comment> \<open>the tool cannot be started: \<open>OSError\<close> with this message\<close>

record host =
  fs :: "string \<Rightarrow> fs_node"
  commands :: "string \<Rightarrow> cmd_result"

datatype exc_class =
  PermissionError | FileNotFoundError | IsADirectoryError | NotADirectoryError | IndexError
  | UnicodeDecodeError

datatype py_exception = PyExc exc_class string

fun str_exception :: "py_exception \<Rightarrow> string" where
  \<comment> \<open>\<open>str(e)\<close>\<close>
  "str_exception (PyExc cls text) = text"

fun is_IOError :: "py_exception \<Rightarrow> bool" where
  \<comment> \<open>what \<open>except IOError\<close> and \<open>except (IOError, PermissionError)\<close> catch: every \<open>OSError\<close>,
      and neither \<open>IndexError\<close> nor \<open>UnicodeDecodeError\<close> (a \<open>ValueError\<close>)\<close>
  "is_IOError (PyExc cls text) =
     (cls = PermissionError \<or> cls = FileNotFoundError \<or> cls = IsADirectoryError \<or>
      cls = NotADirectoryError)"

datatype 'a outcome =
    Returns 'a
  | Raises py_exception   \<comment> \<open>an exception, which \<open>except Exception\<close> catches\<close>
  | Hangs                 \<comment> \<open>the call never returns\<close>
  | Aborts string         \<comment> \<open>the Ansible library calls \<open>fail_json\<close> with this message and the
                              process exits through \<open>SystemExit\<close>, which \<open>except Exception\<close> does
                              not catch\<close>

fun bind_outcome :: "'a outcome \<Rightarrow> ('a \<Rightarrow> 'b outcome) \<Rightarrow> 'b outcome" where
  "bind_outcome (Returns x) f = f x"
| "bind_outcome (Raises e) f = Raises e"
| "bind_outcome Hangs f = Hangs"
| "bind_outcome (Aborts m) f = Aborts m"

definition errno_text :: "string \<Rightarrow> string \<Rightarrow> string" where
  "errno_text what path = what @ '': '' @ [CHR 0x27] @ path @ [CHR 0x27]"

definition os_path_exists :: "host \<Rightarrow> string \<Rightarrow> bool" where
  "os_path_exists h p = (fs h p \<noteq> Absent)"

definition os_path_isfile :: "host \<Rightarrow> string \<Rightarrow> bool" where
  "os_path_isfile h p =
     (case fs h p of
        Regular content \<Rightarrow> True | Denied \<Rightarrow> True | Garbled m \<Rightarrow> True | _ \<Rightarrow> False)"

definition os_path_join :: "string \<Rightarrow> string \<Rightarrow> string" where
  "os_path_join a b =
     (if startswith b ''/'' then b
      else if a = [] \<or> last a = CHR ''/'' then a @ b
      else a @ ''/'' @ b)"

definition os_listdir :: "host \<Rightarrow> string \<Rightarrow> string list outcome" where
  "os_listdir h p =
     (case fs h p of
        Folder names \<Rightarrow> Returns names
      | Locked_Folder \<Rightarrow> Raises (PyExc PermissionError (errno_text ''[Errno 13] Permission denied'' p))
      | Absent \<Rightarrow> Raises (PyExc FileNotFoundError (errno_text ''[Errno 2] No such file or directory'' p))
      | Regular content \<Rightarrow> Raises (PyExc NotADirectoryError (errno_text ''[Errno 20] Not a directory'' p))
      | Denied \<Rightarrow> Raises (PyExc NotADirectoryError (errno_text ''[Errno 20] Not a directory'' p))
      | Garbled m \<Rightarrow> Raises (PyExc NotADirectoryError (errno_text ''[Errno 20] Not a directory'' p)))"

definition open_read :: "host \<Rightarrow> string \<Rightarrow> string outcome" where
  \<comment> \<open>\<open>with open(p, 'r') as f\<close> and the reading of \<open>f\<close>: the text of the file, the \<open>OSError\<close>
      that \<open>open\<close> raises, or the \<open>UnicodeDecodeError\<close> that decoding raises\<close>
  "open_read h p =
     (case fs h p of
        Regular content \<Rightarrow> Returns content
      | Garbled m \<Rightarrow> Raises (PyExc UnicodeDecodeError m)
      | Denied \<Rightarrow> Raises (PyExc PermissionError (errno_text ''[Errno 13] Permission denied'' p))
      | Absent \<Rightarrow> Raises (PyExc FileNotFoundError (errno_text ''[Errno 2] No such file or directory'' p))
      | Folder names \<Rightarrow> Raises (PyExc IsADirectoryError (errno_text ''[Errno 21] Is a directory'' p))
      | Locked_Folder \<Rightarrow> Raises (PyExc IsADirectoryError (errno_text ''[Errno 21] Is a directory'' p)))"

definition except_IOError :: "'a outcome \<Rightarrow> 'a \<Rightarrow> 'a outcome" where
  \<comment> \<open>\<open>try: ... except IOError: pass\<close>: an \<open>OSError\<close> is swallowed and the value before the
      \<open>try\<close> is kept; any other exception goes on.\<close>
  "except_IOError body kept =
     (case body of
        Returns x \<Rightarrow> Returns x
      | Raises e \<Rightarrow> (if is_IOError e then Returns kept else Raises e)
      | Hangs \<Rightarrow> Hangs
      | Aborts m \<Rightarrow> Aborts m)"

subsection \<open>Commands, with the trace of the command lines run\<close>

type_synonym 'a traced = "'a outcome \<times> string list"

definition ret :: "'a \<Rightarrow> 'a traced" where
  "ret x = (Returns x, [])"

definition lift :: "'a outcome \<Rightarrow> 'a traced" where
  "lift r = (r, [])"

definition bind :: "'a traced \<Rightarrow> ('a \<Rightarrow> 'b traced) \<Rightarrow> 'b traced" where
  "bind m f =
     (case fst m of
        Returns x \<Rightarrow> (fst (f x), snd m @ snd (f x))
      | Raises e \<Rightarrow> (Raises e, snd m)
      | Hangs \<Rightarrow> (Hangs, snd m)
      | Aborts msg \<Rightarrow> (Aborts msg, snd m))"

definition run_command :: "host \<Rightarrow> string \<Rightarrow> (int \<times> string \<times> string) traced" where
  \<comment> \<open>\<open>module.run_command(cmd)\<close>: called with the command line alone, it waits for the child;
      when the child cannot be started, the library itself reports the failure and exits.\<close>
  "run_command h cmd =
     (case commands h cmd of
        Completed rc out err \<Rightarrow> (Returns (rc, out, err), [cmd])
      | Stalled \<Rightarrow> (Hangs, [cmd])
      | Unlaunchable msg \<Rightarrow> (Aborts msg, [cmd]))"

section \<open>\<open>system_info.py\<close>: DNS settings\<close>

record dns_info =
  nameservers :: "string list"
  search_domains :: "string list"
  resolv_conf :: string

definition dns_line :: "string \<Rightarrow> dns_info \<Rightarrow> dns_info" where
  \<comment> \<open>the body of the loop over the lines of the resolver file\<close>
  "dns_line raw dns =
     (let line = strip raw in
      if startswith line ''nameserver'' then
        (let parts = py_split line in
         if length parts \<ge> 2 then dns\<lparr>nameservers := nameservers dns @ [parts ! 1]\<rparr> else dns)
      else if startswith line ''search'' then
        (let parts = py_split line in
         if length parts \<ge> 2 then dns\<lparr>search_domains := search_domains dns @ tl parts\<rparr> else dns)
      else dns)"

definition get_dns_settings :: "host \<Rightarrow> dns_info outcome" where
  "get_dns_settings h =
     (let dns = \<lparr>nameservers = [], search_domains = [], resolv_conf = ''/etc/resolv.conf''\<rparr> in
      if os_path_exists h ''/etc/resolv.conf'' then
        except_IOError
          (bind_outcome (open_read h ''/etc/resolv.conf'')
             (\<lambda>content. Returns (fold dns_line (readlines content) dns)))
          dns
      else Returns dns)"

section \<open>\<open>hostname_check.py\<close>\<close>

datatype hostname_output =
    Hostname_exit bool string string   \<comment> \<open>\<open>exit_json(changed, hostname, msg)\<close>\<close>
  | Hostname_fail string               \<comment> \<open>\<open>fail_json(msg)\<close>\<close>

definition hostname_check_main :: "string outcome \<Rightarrow> hostname_output outcome" where
  \<comment> \<open>\<open>main\<close> of \<open>hostname_check.py\<close>; the argument is what \<open>socket.gethostname()\<close> does.\<close>
  "hostname_check_main gethostname =
     (case gethostname of
        Returns hostname \<Rightarrow> Returns (Hostname_exit False hostname (''Hostname (Python): '' @ hostname))
      | Raises e \<Rightarrow> Returns (Hostname_fail (''Failed to get hostname: '' @ str_exception e))
      | Hangs \<Rightarrow> Hangs
      | Aborts m \<Rightarrow> Aborts m)"

section \<open>\<open>system_info.py\<close>: sudo users\<close>

fun fold_outcome :: "('b \<Rightarrow> 'a \<Rightarrow> 'a outcome) \<Rightarrow> 'b list \<Rightarrow> 'a \<Rightarrow> 'a outcome" where
  \<comment> \<open>a \<open>for\<close> loop whose body may raise\<close>
  "fold_outcome f [] acc = Returns acc"
| "fold_outcome f (x # xs) acc = bind_outcome (f x acc) (fold_outcome f xs)"

definition sudoers_line :: "string \<Rightarrow> string list \<Rightarrow> string list outcome" where
  \<comment> \<open>the body of the loop over the lines of one sudoers file\<close>
  "sudoers_line raw acc =
     (let line = strip raw in
      if startswith line ''#'' \<or> line = [] then Returns acc
      else if str_in ''ALL=(ALL'' line \<or> str_in ''ALL = (ALL'' line then
        (case py_split line of
           [] \<Rightarrow> Raises (PyExc IndexError ''list index out of range'')
         | user # rest \<Rightarrow>
             if user \<notin> set [''root'', ''%sudo'', ''%wheel'', ''%admin''] then
               (if \<not> startswith user ''%'' then Returns (acc @ [user]) else Returns acc)
             else Returns acc)
      else Returns acc)"

definition sudoers_files :: "host \<Rightarrow> string list outcome" where
  \<comment> \<open>\<open>/etc/sudoers\<close> and, when \<open>/etc/sudoers.d\<close> exists, the regular files listed in it;
      \<open>os.listdir\<close> is called outside any \<open>try\<close>.\<close>
  "sudoers_files h =
     (if os_path_exists h ''/etc/sudoers.d'' then
        bind_outcome (os_listdir h ''/etc/sudoers.d'')
          (\<lambda>names. Returns ([''/etc/sudoers''] @
             map (os_path_join ''/etc/sudoers.d'')
               (filter (\<lambda>f. os_path_isfile h (os_path_join ''/etc/sudoers.d'' f)) names)))
      else Returns [''/etc/sudoers''])"

fun scan_sudoers :: "host \<Rightarrow> string list \<Rightarrow> string list \<Rightarrow> string list outcome" where
  \<comment> \<open>\<open>for filepath in sudoers_files: try: ... except (IOError, PermissionError): continue\<close>\<close>
  "scan_sudoers h [] acc = Returns acc"
| "scan_sudoers h (filepath # rest) acc =
     bind_outcome
       (except_IOError
          (bind_outcome (open_read h filepath)
             (\<lambda>content. fold_outcome sudoers_line (readlines content) acc))
          acc)
       (scan_sudoers h rest)"

definition group_line :: "string \<Rightarrow> string list \<Rightarrow> string list" where
  \<comment> \<open>the body of the loop over the lines of \<open>/etc/group\<close>\<close>
  "group_line line acc =
     (if startswith line ''sudo:'' \<or> startswith line ''wheel:'' then
        (let parts = split_on CHR '':'' (strip line) in
         if length parts \<ge> 4 \<and> parts ! 3 \<noteq> [] then acc @ split_on CHR '','' (parts ! 3)
         else acc)
      else acc)"

definition get_sudo_users :: "host \<Rightarrow> string set outcome" where
  "get_sudo_users h =
     bind_outcome (sudoers_files h) (\<lambda>files.
     bind_outcome (scan_sudoers h files []) (\<lambda>acc.
     bind_outcome
       (except_IOError
          (bind_outcome (open_read h ''/etc/group'')
             (\<lambda>content. Returns (fold group_line (readlines content) acc)))
          acc)
       (\<lambda>acc. Returns (set acc))))"

section \<open>\<open>system_info.py\<close>: NTP settings\<close>

record ntp_info =
  service :: string
  enabled :: bool
  servers :: "string list"
  status :: string

definition chrony_line :: "string \<Rightarrow> string list \<Rightarrow> string list" where
  "chrony_line line acc =
     (if startswith (strip line) ''server'' \<or> startswith (strip line) ''pool'' then
        (let parts = py_split line in
         if length parts \<ge> 2 then acc @ [parts ! 1] else acc)
      else acc)"

definition ntp_conf_line :: "string \<Rightarrow> string list \<Rightarrow> string list" where
  "ntp_conf_line line acc =
     (if startswith (strip line) ''server'' then
        (let parts = py_split line in
         if length parts \<ge> 2 then acc @ [parts ! 1] else acc)
      else acc)"

definition timesync_line :: "string \<Rightarrow> string list \<Rightarrow> string list outcome" where
  "timesync_line line acc =
     (if str_in ''ServerName='' line then
        (case split_on CHR ''='' line of
           a # b # rest \<Rightarrow>
             (let server = strip b in
              if server \<noteq> [] then Returns (acc @ [server]) else Returns acc)
         | _ \<Rightarrow> Raises (PyExc IndexError ''list index out of range''))
      else Returns acc)"

definition check_chronyd :: "host \<Rightarrow> ntp_info \<Rightarrow> ntp_info traced" where
  "check_chronyd h ntp =
     bind (run_command h ''which chronyd'') (\<lambda>(rc, out, err).
       if rc = 0 then
         bind (run_command h ''systemctl is-active chronyd'') (\<lambda>(rc, out, err).
           let ntp = ntp\<lparr>service := ''chronyd'', enabled := (strip out = ''active''),
                         status := strip out\<rparr> in
           if os_path_exists h ''/etc/chrony.conf'' then
             lift (except_IOError
               (bind_outcome (open_read h ''/etc/chrony.conf'')
                  (\<lambda>content. Returns
                     (ntp\<lparr>servers := fold chrony_line (readlines content) (servers ntp)\<rparr>)))
               ntp)
           else ret ntp)
       else ret ntp)"

definition check_ntpd :: "host \<Rightarrow> ntp_info \<Rightarrow> ntp_info traced" where
  "check_ntpd h ntp =
     bind (run_command h ''which ntpd'') (\<lambda>(rc, out, err).
       if rc = 0 \<and> service ntp = ''unknown'' then
         bind (run_command h ''systemctl is-active ntpd'') (\<lambda>(rc, out, err).
           let ntp = ntp\<lparr>service := ''ntpd'', enabled := (strip out = ''active''),
                         status := strip out\<rparr> in
           if os_path_exists h ''/etc/ntp.conf'' then
             lift (except_IOError
               (bind_outcome (open_read h ''/etc/ntp.conf'')
                  (\<lambda>content. Returns
                     (ntp\<lparr>servers := fold ntp_conf_line (readlines content) (servers ntp)\<rparr>)))
               ntp)
           else ret ntp)
       else ret ntp)"

definition check_timesyncd :: "host \<Rightarrow> ntp_info \<Rightarrow> ntp_info traced" where
  "check_timesyncd h ntp =
     bind (run_command h ''which systemd-timesyncd'') (\<lambda>(rc, out, err).
       if rc = 0 \<and> service ntp = ''unknown'' then
         bind (run_command h ''systemctl is-active systemd-timesyncd'') (\<lambda>(rc, out, err).
           let ntp = ntp\<lparr>service := ''systemd-timesyncd'', enabled := (strip out = ''active''),
                         status := strip out\<rparr> in
           bind (run_command h ''timedatectl show-timesync --all'') (\<lambda>(rc, out, err).
             if rc = 0 then
               lift (bind_outcome (fold_outcome timesync_line (split_on CHR 0x0A out) (servers ntp))
                       (\<lambda>acc. Returns (ntp\<lparr>servers := acc\<rparr>)))
             else ret ntp))
       else ret ntp)"

definition get_ntp_settings :: "host \<Rightarrow> ntp_info traced" where
  "get_ntp_settings h =
     (let ntp = \<lparr>service = ''unknown'', enabled = False, servers = [], status = ''unknown''\<rparr> in
      bind (check_chronyd h ntp) (\<lambda>ntp.
      bind (check_ntpd h ntp) (\<lambda>ntp.
      check_timesyncd h ntp)))"

section \<open>\<open>system_info.py\<close>: IPv6 status\<close>

record ipv6_info =
  disabled :: bool
  disable_method :: "string list"
  sysctl_values :: "(string \<times> string) list"
  live_status :: "string option"   \<comment> \<open>the key \<open>'status'\<close>, absent until the last pass sets it\<close>

fun dict_set :: "('k \<times> 'v) list \<Rightarrow> 'k \<Rightarrow> 'v \<Rightarrow> ('k \<times> 'v) list" where
  \<comment> \<open>\<open>d[k] = v\<close> on a dictionary kept in insertion order\<close>
  "dict_set [] k v = [(k, v)]"
| "dict_set ((k', v') # kvs) k v =
     (if k' = k then (k, v) # kvs else (k', v') # dict_set kvs k v)"

definition sysctl_params :: "string list" where
  "sysctl_params =
     [''net.ipv6.conf.all.disable_ipv6'',
      ''net.ipv6.conf.default.disable_ipv6'',
      ''net.ipv6.conf.lo.disable_ipv6'']"

definition sysctl_value :: "string \<Rightarrow> string" where
  \<comment> \<open>\<open>out.strip().split('=')[-1].strip()\<close>\<close>
  "sysctl_value out = strip (last (split_on CHR ''='' (strip out)))"

definition sysctl_record :: "string \<Rightarrow> string \<Rightarrow> ipv6_info \<Rightarrow> ipv6_info" where
  \<comment> \<open>the body of \<open>if rc == 0\<close> in the loop over the kernel parameters\<close>
  "sysctl_record param out info =
     (let value = sysctl_value out;
          info = info\<lparr>sysctl_values := dict_set (sysctl_values info) param value\<rparr> in
      if value = ''1'' then
        info\<lparr>disabled := True, disable_method := disable_method info @ [''sysctl'']\<rparr>
      else info)"

fun sysctl_pass :: "host \<Rightarrow> string list \<Rightarrow> ipv6_info \<Rightarrow> ipv6_info traced" where
  "sysctl_pass h [] info = ret info"
| "sysctl_pass h (param # params) info =
     bind (run_command h (''sysctl '' @ param)) (\<lambda>(rc, out, err).
       sysctl_pass h params (if rc = 0 then sysctl_record param out info else info))"

definition grub_files :: "string list" where
  "grub_files = [''/etc/default/grub'', ''/boot/grub/grub.cfg'', ''/boot/grub2/grub.cfg'']"

definition grub_file_check :: "host \<Rightarrow> string \<Rightarrow> ipv6_info \<Rightarrow> ipv6_info outcome" where
  "grub_file_check h grub_file info =
     (if os_path_exists h grub_file then
        except_IOError
          (bind_outcome (open_read h grub_file) (\<lambda>content.
             if str_in ''ipv6.disable=1'' content then
               (let info = info\<lparr>disabled := True\<rparr> in
                if ''grub'' \<notin> set (disable_method info)
                then Returns (info\<lparr>disable_method := disable_method info @ [''grub'']\<rparr>)
                else Returns info)
             else Returns info))
          info
      else Returns info)"

definition live_line :: "string \<Rightarrow> bool" where
  \<comment> \<open>\<open>'inet6' in line and '::1' not in line\<close>\<close>
  "live_line line = (str_in ''inet6'' line \<and> \<not> str_in ''::1'' line)"

definition live_pass :: "host \<Rightarrow> ipv6_info \<Rightarrow> ipv6_info traced" where
  "live_pass h info =
     bind (run_command h ''ip -6 addr show'') (\<lambda>(rc, out, err).
       if rc = 0 \<and> strip out \<noteq> [] then
         (let has_ipv6 = list_ex live_line (split_on CHR 0x0A out) in
          if \<not> has_ipv6 \<and> disabled info then ret (info\<lparr>live_status := Some ''disabled''\<rparr>)
          else if has_ipv6 then ret (info\<lparr>live_status := Some ''enabled'', disabled := False\<rparr>)
          else ret info)
       else ret info)"

definition get_ipv6_status :: "host \<Rightarrow> ipv6_info traced" where
  "get_ipv6_status h =
     (let info = \<lparr>disabled = False, disable_method = [], sysctl_values = [],
                  live_status = None\<rparr> in
      bind (sysctl_pass h sysctl_params info) (\<lambda>info.
      bind (lift (fold_outcome (grub_file_check h) grub_files info)) (\<lambda>info.
      live_pass h info)))"

section \<open>\<open>system_info.py\<close>: \<open>main\<close>\<close>

record report =
  changed :: bool
  sudo_users :: "string set"
  ntp_settings :: ntp_info
  dns_settings :: dns_info
  ipv6_status :: ipv6_info

datatype module_output =
    Exit_json report    \<comment> \<open>\<open>module.exit_json(**result)\<close>\<close>
  | Fail_json string    \<comment> \<open>\<open>module.fail_json(msg=str(e))\<close>\<close>

definition run_collectors ::
  "string set traced \<Rightarrow> ntp_info traced \<Rightarrow> dns_info traced \<Rightarrow> ipv6_info traced \<Rightarrow> report traced" where
  \<comment> \<open>the body of the \<open>try\<close> in \<open>main\<close>, the four collector calls taken as parameters\<close>
  "run_collectors sudo ntp dns ipv6 =
     bind sudo (\<lambda>s. bind ntp (\<lambda>n. bind dns (\<lambda>d. bind ipv6 (\<lambda>i.
       ret \<lparr>changed = False, sudo_users = s, ntp_settings = n, dns_settings = d,
            ipv6_status = i\<rparr>))))"

definition try_main :: "report traced \<Rightarrow> module_output traced" where
  \<comment> \<open>\<open>try: ...; module.exit_json(**result) except Exception as e: module.fail_json(msg=str(e))\<close>\<close>
  "try_main body =
     (case fst body of
        Returns result \<Rightarrow> (Returns (Exit_json result), snd body)
      | Raises e \<Rightarrow> (Returns (Fail_json (str_exception e)), snd body)
      | Hangs \<Rightarrow> (Hangs, snd body)
      | Aborts msg \<Rightarrow> (Aborts msg, snd body))"

definition system_info_main :: "host \<Rightarrow> module_output traced" where
  "system_info_main h =
     try_main (run_collectors (lift (get_sudo_users h)) (get_ntp_settings h)
                 (lift (get_dns_settings h)) (get_ipv6_status h))"

section \<open>Resolver files as lists of entries\<close>

text \<open>
  The resolver file as the specification describes it: a sequence of lines, each a
  \<open>nameserver <addr>\<close> line, a \<open>search <dom1> <dom2> ...\<close> line, or some other line.
\<close>

definition token :: "string \<Rightarrow> bool" where
  \<comment> \<open>a non-empty word without whitespace\<close>
  "token t = (t \<noteq> [] \<and> list_all (\<lambda>c. \<not> isspace c) t)"

fun join_spaces :: "string list \<Rightarrow> string" where
  "join_spaces [] = []"
| "join_spaces [d] = d"
| "join_spaces (d # e # ds) = d @ '' '' @ join_spaces (e # ds)"

datatype resolv_entry = Nameserver string | Search "string list" | Other string

fun render_entry :: "resolv_entry \<Rightarrow> string" where
  "render_entry (Nameserver a) = ''nameserver '' @ a @ [CHR 0x0A]"
| "render_entry (Search ds) = ''search '' @ join_spaces ds @ [CHR 0x0A]"
| "render_entry (Other s) = s @ [CHR 0x0A]"

fun wf_entry :: "resolv_entry \<Rightarrow> bool" where
  "wf_entry (Nameserver a) = token a"
| "wf_entry (Search ds) = (ds \<noteq> [] \<and> list_all token ds)"
| "wf_entry (Other s) =
     (CHR 0x0A \<notin> set s \<and> \<not> startswith (strip s) ''nameserver'' \<and>
      \<not> startswith (strip s) ''search'')"

fun entry_nameservers :: "resolv_entry \<Rightarrow> string list" where
  "entry_nameservers (Nameserver a) = [a]"
| "entry_nameservers (Search ds) = []"
| "entry_nameservers (Other s) = []"

fun entry_domains :: "resolv_entry \<Rightarrow> string list" where
  "entry_domains (Nameserver a) = []"
| "entry_domains (Search ds) = ds"
| "entry_domains (Other s) = []"

section \<open>Evidence on a host, stalled commands, configuration files\<close>

definition no_sysctl_evidence :: "host \<Rightarrow> bool" where
  \<comment> \<open>each of the three kernel-parameter queries exits, and none yields the value \<open>1\<close>\<close>
  "no_sysctl_evidence h =
     list_all (\<lambda>param. case commands h (''sysctl '' @ param) of
                  Completed rc out err \<Rightarrow> \<not> (rc = 0 \<and> sysctl_value out = ''1'')
                | _ \<Rightarrow> False) sysctl_params"

definition no_grub_evidence :: "host \<Rightarrow> bool" where
  \<comment> \<open>no bootloader file contains \<open>ipv6.disable=1\<close>: each is absent, unreadable, or text
      without the parameter\<close>
  "no_grub_evidence h =
     list_all (\<lambda>grub_file. case fs h grub_file of
                  Regular content \<Rightarrow> \<not> str_in ''ipv6.disable=1'' content
                | Garbled m \<Rightarrow> False
                | _ \<Rightarrow> True) grub_files"

definition no_live_address :: "host \<Rightarrow> bool" where
  \<comment> \<open>the live query exits and the collector finds no address in it: the query fails, prints
      nothing, or prints no line that passes the collector's test\<close>
  "no_live_address h =
     (case commands h ''ip -6 addr show'' of
        Completed rc out err \<Rightarrow>
          \<not> (rc = 0 \<and> strip out \<noteq> [] \<and> list_ex live_line (split_on CHR 0x0A out))
      | _ \<Rightarrow> False)"

definition stall_hangs :: "host \<Rightarrow> 'a traced \<Rightarrow> bool" where
  \<comment> \<open>when the trace holds a command that never exits, the computation hangs\<close>
  "stall_hangs h t =
     (if list_ex (\<lambda>c. commands h c = Stalled) (snd t) then fst t = Hangs else True)"

definition decodable :: "fs_node \<Rightarrow> bool" where
  \<comment> \<open>reading the file does not raise \<open>UnicodeDecodeError\<close>\<close>
  "decodable node = (case node of Garbled m \<Rightarrow> False | _ \<Rightarrow> True)"

definition config_servers :: "(string \<Rightarrow> string list \<Rightarrow> string list) \<Rightarrow> fs_node \<Rightarrow> string list" where
  \<comment> \<open>the servers that one backend's configuration file yields, scanned line by line;
      none when the file is absent or may not be opened\<close>
  "config_servers line_fn node =
     (case node of Regular content \<Rightarrow> fold line_fn (readlines content) [] | _ \<Rightarrow> [])"

section \<open>Example hosts\<close>

definition host_bare :: host where
  \<comment> \<open>no file the probe looks for, and every command exits with status 1\<close>
  "host_bare = \<lparr>fs = (\<lambda>p. Absent), commands = (\<lambda>c. Completed 1 [] [])\<rparr>"

definition host_sysctl_all :: host where
  \<comment> \<open>all three kernel parameters report 1\<close>
  "host_sysctl_all =
     \<lparr>fs = (\<lambda>p. Absent),
      commands = (\<lambda>c.
        if c = ''sysctl net.ipv6.conf.all.disable_ipv6''
          then Completed 0 ''net.ipv6.conf.all.disable_ipv6 = 1\<newline>'' []
        else if c = ''sysctl net.ipv6.conf.default.disable_ipv6''
          then Completed 0 ''net.ipv6.conf.default.disable_ipv6 = 1\<newline>'' []
        else if c = ''sysctl net.ipv6.conf.lo.disable_ipv6''
          then Completed 0 ''net.ipv6.conf.lo.disable_ipv6 = 1\<newline>'' []
        else Completed 1 [] [])\<rparr>"

definition host_locked_dropin :: host where
  \<comment> \<open>\<open>/etc/sudoers.d\<close> exists and may not be listed; \<open>/etc/group\<close> is readable\<close>
  "host_locked_dropin =
     \<lparr>fs = (\<lambda>p. if p = ''/etc/sudoers.d'' then Locked_Folder
                 else if p = ''/etc/group'' then Regular ''wheel:x:10:alice\<newline>''
                 else Absent),
      commands = (\<lambda>c. Completed 1 [] [])\<rparr>"

definition host_grub_linklocal :: host where
  \<comment> \<open>the boot parameter is configured, and an interface carries the address \<open>fe80::1\<close>\<close>
  "host_grub_linklocal =
     \<lparr>fs = (\<lambda>p. if p = ''/etc/default/grub''
                 then Regular ''GRUB_CMDLINE_LINUX=\"ipv6.disable=1\"\<newline>'' else Absent),
      commands = (\<lambda>c.
        if c = ''ip -6 addr show''
          then Completed 0
                 ''    inet6 ::1/128 scope host\<newline>    inet6 fe80::1/64 scope link\<newline>'' []
        else Completed 1 [] [])\<rparr>"

definition host_resolv_example :: host where
  "host_resolv_example =
     \<lparr>fs = (\<lambda>p. if p = ''/etc/resolv.conf''
                 then Regular ''nameserver 8.8.8.8\<newline>search a.com b.com\<newline>'' else Absent),
      commands = (\<lambda>c. Completed 1 [] [])\<rparr>"

definition host_ipv6_quiet :: host where
  \<comment> \<open>the kernel parameter is 0, the boot file lacks the parameter, only \<open>::1\<close> is live\<close>
  "host_ipv6_quiet =
     \<lparr>fs = (\<lambda>p. if p = ''/etc/default/grub''
                 then Regular ''GRUB_CMDLINE_LINUX=\"quiet\"\<newline>'' else Absent),
      commands = (\<lambda>c.
        if c = ''sysctl net.ipv6.conf.all.disable_ipv6''
          then Completed 0 ''net.ipv6.conf.all.disable_ipv6 = 0\<newline>'' []
        else if c = ''ip -6 addr show''
          then Completed 0 ''    inet6 ::1/128 scope host\<newline>'' []
        else Completed 1 [] [])\<rparr>"

definition host_chronyd_ntpd :: host where
  \<comment> \<open>both \<open>chronyd\<close> and \<open>ntpd\<close> are installed, each with its configuration file\<close>
  "host_chronyd_ntpd =
     \<lparr>fs = (\<lambda>p. if p = ''/etc/chrony.conf''
                 then Regular ''pool 2.pool.ntp.org iburst\<newline>server 10.0.0.1\<newline>''
                 else if p = ''/etc/ntp.conf'' then Regular ''server stale.example\<newline>''
                 else Absent),
      commands = (\<lambda>c.
        if c = ''which chronyd'' then Completed 0 ''/usr/sbin/chronyd\<newline>'' []
        else if c = ''systemctl is-active chronyd'' then Completed 0 ''active\<newline>'' []
        else if c = ''which ntpd'' then Completed 0 ''/usr/sbin/ntpd\<newline>'' []
        else Completed 1 [] [])\<rparr>"

definition host_ntpd :: host where
  \<comment> \<open>\<open>ntpd\<close> and \<open>systemd-timesyncd\<close> are installed, \<open>chronyd\<close> is not\<close>
  "host_ntpd =
     \<lparr>fs = (\<lambda>p. if p = ''/etc/ntp.conf''
                 then Regular ''server 0.pool.ntp.org\<newline>'' else Absent),
      commands = (\<lambda>c.
        if c = ''which ntpd'' then Completed 0 ''/usr/sbin/ntpd\<newline>'' []
        else if c = ''systemctl is-active ntpd'' then Completed 3 ''inactive\<newline>'' []
        else if c = ''which systemd-timesyncd''
          then Completed 0 ''/lib/systemd/systemd-timesyncd\<newline>'' []
        else Completed 1 [] [])\<rparr>"

definition host_timesyncd :: host where
  \<comment> \<open>only \<open>systemd-timesyncd\<close> is installed\<close>
  "host_timesyncd =
     \<lparr>fs = (\<lambda>p. Absent),
      commands = (\<lambda>c.
        if c = ''which systemd-timesyncd''
          then Completed 0 ''/lib/systemd/systemd-timesyncd\<newline>'' []
        else if c = ''systemctl is-active systemd-timesyncd''
          then Completed 0 ''active\<newline>'' []
        else if c = ''timedatectl show-timesync --all''
          then Completed 0 ''LinkNTPServers=\<newline>ServerName=ntp.ubuntu.com\<newline>'' []
        else Completed 1 [] [])\<rparr>"

definition host_stalled_which :: host where
  \<comment> \<open>\<open>which chronyd\<close> never exits\<close>
  "host_stalled_which =
     \<lparr>fs = (\<lambda>p. Absent),
      commands = (\<lambda>c. if c = ''which chronyd'' then Stalled else Completed 1 [] [])\<rparr>"

definition host_garbled_resolv :: host where
  \<comment> \<open>\<open>/etc/resolv.conf\<close> holds bytes that are not UTF-8\<close>
  "host_garbled_resolv =
     \<lparr>fs = (\<lambda>p. if p = ''/etc/resolv.conf''
                 then Garbled (''utf-8 codec cannot decode byte 0xff in position 0'')
                 else Absent),
      commands = (\<lambda>c. Completed 1 [] [])\<rparr>"

definition host_no_which :: host where
  \<comment> \<open>there is no \<open>which\<close> to start\<close>
  "host_no_which =
     \<lparr>fs = (\<lambda>p. Absent),
      commands = (\<lambda>c. if startswith c ''which ''
                       then Unlaunchable ''[Errno 2] No such file or directory: which''
                       else Completed 1 [] [])\<rparr>"

definition host_stalled_ip :: host where
  \<comment> \<open>\<open>ip -6 addr show\<close> never exits\<close>
  "host_stalled_ip =
     \<lparr>fs = (\<lambda>p. Absent),
      commands = (\<lambda>c. if c = ''ip -6 addr show'' then Stalled else Completed 1 [] [])\<rparr>"

section \<open>Strings: basic facts\<close>

lemma startswith_append: "startswith (p @ s) p"
  by (induction p) auto

lemma isspace_newline: "isspace (CHR 0x0A)"
  by (simp add: isspace_def)

lemma isspace_space: "isspace (CHR '' '')"
  by (simp add: isspace_def)

declare isspace_newline [simp] isspace_space [simp]

lemma strip_append_space: "isspace c \<Longrightarrow> strip (s @ [c]) = strip s"
proof (cases "list_all isspace s")
  case True
  assume "isspace c"
  with True have "\<forall>x\<in>set (s @ [c]). isspace x" "\<forall>x\<in>set s. isspace x"
    by (simp_all add: list_all_iff)
  then have "dropWhile isspace (s @ [c]) = []" "dropWhile isspace s = []"
    by (simp_all only: dropWhile_eq_Nil_conv)
  then show ?thesis by (simp only: strip_def)
next
  case False
  assume c: "isspace c"
  from False obtain x where "x \<in> set s" "\<not> isspace x" by (auto simp: list_all_iff)
  then have "dropWhile isspace (s @ [c]) = dropWhile isspace s @ [c]"
    by (rule dropWhile_append1)
  with c show ?thesis by (simp add: strip_def)
qed

lemma strip_id: "s \<noteq> [] \<Longrightarrow> \<not> isspace (hd s) \<Longrightarrow> \<not> isspace (last s) \<Longrightarrow> strip s = s"
proof -
  assume a: "s \<noteq> []" "\<not> isspace (hd s)" "\<not> isspace (last s)"
  then have 1: "dropWhile isspace s = s" by (cases s) auto
  from a have "rev s \<noteq> []" "\<not> isspace (hd (rev s))" by (auto simp: hd_rev)
  then have "dropWhile isspace (rev s) = rev s" by (cases "rev s") auto
  with 1 show ?thesis by (simp add: strip_def)
qed

lemma strip_Nil_iff: "strip s = [] \<longleftrightarrow> (\<forall>c\<in>set s. isspace c)"
proof
  assume "strip s = []"
  then have a: "\<forall>x\<in>set (dropWhile isspace s). isspace x"
    by (simp add: strip_def dropWhile_eq_Nil_conv)
  show "\<forall>c\<in>set s. isspace c"
  proof (rule ccontr)
    assume "\<not> (\<forall>c\<in>set s. isspace c)"
    then have n: "dropWhile isspace s \<noteq> []" by (simp add: dropWhile_eq_Nil_conv)
    then have "\<not> isspace (hd (dropWhile isspace s))" by (rule hd_dropWhile)
    moreover from n have "hd (dropWhile isspace s) \<in> set (dropWhile isspace s)" by simp
    ultimately show False using a by blast
  qed
next
  assume "\<forall>c\<in>set s. isspace c"
  then have "dropWhile isspace s = []" by (simp only: dropWhile_eq_Nil_conv)
  then show "strip s = []" by (simp only: strip_def rev.simps dropWhile.simps)
qed

lemma strip_has_visible: "strip s \<noteq> [] \<Longrightarrow> \<exists>c\<in>set (strip s). \<not> isspace c"
proof -
  let ?t = "dropWhile isspace (rev (dropWhile isspace s))"
  assume "strip s \<noteq> []"
  then have n: "?t \<noteq> []" by (simp add: strip_def)
  then have "\<not> isspace (hd ?t)" by (rule hd_dropWhile)
  moreover from n have "hd ?t \<in> set ?t" by simp
  ultimately show ?thesis unfolding strip_def by auto
qed

lemma split_acc_token: "list_all (\<lambda>c. \<not> isspace c) t \<Longrightarrow> split_acc cur (t @ rest) = split_acc (cur @ t) rest"
  by (induction t arbitrary: cur) auto

lemma split_acc_one: "token t \<Longrightarrow> split_acc [] t = [t]"
  using split_acc_token [of t "[]" "[]"] by (simp add: token_def)

lemma split_acc_join: "ds \<noteq> [] \<Longrightarrow> list_all token ds \<Longrightarrow> split_acc [] (join_spaces ds) = ds"
proof (induction ds rule: join_spaces.induct)
  case 1 then show ?case by simp
next
  case (2 d) then show ?case by (simp add: split_acc_one)
next
  case (3 d e ds)
  then have t: "list_all (\<lambda>c. \<not> isspace c) d" "d \<noteq> []" by (auto simp: token_def)
  have "split_acc [] (d @ '' '' @ join_spaces (e # ds)) = split_acc ([] @ d) ('' '' @ join_spaces (e # ds))"
    using t(1) by (rule split_acc_token)
  also have "\<dots> = d # split_acc [] (join_spaces (e # ds))" using t(2) by simp
  finally show ?case using 3 by simp
qed

lemma split_acc_not_Nil: "cur \<noteq> [] \<or> (\<exists>c\<in>set s. \<not> isspace c) \<Longrightarrow> split_acc cur s \<noteq> []"
  by (induction s arbitrary: cur) auto

lemma last_join: "ds \<noteq> [] \<Longrightarrow> list_all token ds \<Longrightarrow> join_spaces ds \<noteq> [] \<and> \<not> isspace (last (join_spaces ds))"
proof (induction ds rule: join_spaces.induct)
  case 1 then show ?case by simp
next
  case (2 d) then show ?case by (auto simp: token_def list_all_iff)
next
  case (3 d e ds) then show ?case by simp
qed

lemma newline_join: "list_all token ds \<Longrightarrow> CHR 0x0A \<notin> set (join_spaces ds)"
  by (induction ds rule: join_spaces.induct) (auto simp: token_def list_all_iff)

lemma startswith_set: "startswith s p \<Longrightarrow> set p \<subseteq> set s"
  by (induction s p rule: startswith.induct) auto

lemma str_in_set: "str_in sub s \<Longrightarrow> set sub \<subseteq> set s"
proof (induction s)
  case Nil
  then show ?case by simp
next
  case (Cons c cs)
  then show ?case using startswith_set [of "c # cs" sub] by auto
qed

lemma split_on_not_Nil: "split_on sep s \<noteq> []"
  by (induction s) (auto split: list.splits)

lemma split_on_two: "sep \<in> set s \<Longrightarrow> \<exists>a b rest. split_on sep s = a # b # rest"
proof (induction s)
  case Nil
  then show ?case by simp
next
  case (Cons c cs)
  show ?case
  proof (cases "c = sep")
    case True
    then show ?thesis using split_on_not_Nil [of sep cs] by (cases "split_on sep cs") auto
  next
    case False
    with Cons obtain a b rest where "split_on sep cs = a # b # rest" by auto
    with False show ?thesis by simp
  qed
qed

lemma split_on_set: "l \<in> set (split_on sep s) \<Longrightarrow> set l \<subseteq> set s"
proof (induction s arbitrary: l)
  case Nil
  then show ?case by simp
next
  case (Cons c cs)
  show ?case
  proof (cases "c = sep")
    case True
    with Cons show ?thesis by auto
  next
    case False
    obtain w ws where w: "split_on sep cs = w # ws"
      using split_on_not_Nil [of sep cs] by (cases "split_on sep cs") auto
    with False Cons.prems have "l = c # w \<or> l \<in> set ws" by simp
    then show ?thesis
    proof
      assume "l = c # w"
      moreover have "set w \<subseteq> set cs" using Cons.IH [of w] w by simp
      ultimately show ?thesis by auto
    next
      assume "l \<in> set ws"
      then have "set l \<subseteq> set cs" using Cons.IH [of l] w by simp
      then show ?thesis by auto
    qed
  qed
qed

lemma lines_acc_line: "CHR 0x0A \<notin> set s \<Longrightarrow> lines_acc cur (s @ CHR 0x0A # rest) = (cur @ s @ [CHR 0x0A]) # lines_acc [] rest"
  by (induction s arbitrary: cur) auto

section \<open>DNS settings: lines in file order\<close>

lemma dns_line_nameserver:
  assumes "token a"
  shows "dns_line (render_entry (Nameserver a)) dns = dns\<lparr>nameservers := nameservers dns @ [a]\<rparr>"
proof -
  from assms have l: "a \<noteq> []" "\<not> isspace (last a)" by (auto simp: token_def list_all_iff)
  have "strip ((''nameserver '' @ a) @ [CHR 0x0A]) = strip (''nameserver '' @ a)"
    by (rule strip_append_space) simp
  also have "\<dots> = ''nameserver '' @ a"
    using l by (intro strip_id) (simp_all add: isspace_def)
  finally have s: "strip (''nameserver '' @ a @ [CHR 0x0A]) = ''nameserver '' @ a" by simp
  have p: "py_split (''nameserver '' @ a) = [''nameserver'', a]"
    using assms by (simp add: py_split_def isspace_def split_acc_one)
  show ?thesis unfolding render_entry.simps dns_line_def s Let_def p by simp
qed

lemma dns_line_search:
  assumes "ds \<noteq> []" "list_all token ds"
  shows "dns_line (render_entry (Search ds)) dns = dns\<lparr>search_domains := search_domains dns @ ds\<rparr>"
proof -
  from assms have l: "join_spaces ds \<noteq> []" "\<not> isspace (last (join_spaces ds))" using last_join by auto
  have "strip ((''search '' @ join_spaces ds) @ [CHR 0x0A]) = strip (''search '' @ join_spaces ds)"
    by (rule strip_append_space) simp
  also have "\<dots> = ''search '' @ join_spaces ds"
    using l by (intro strip_id) (simp_all add: isspace_def)
  finally have s: "strip (''search '' @ join_spaces ds @ [CHR 0x0A]) = ''search '' @ join_spaces ds" by simp
  have p: "py_split (''search '' @ join_spaces ds) = ''search'' # ds"
    using assms by (simp add: py_split_def isspace_def split_acc_join)
  from assms(1) have len: "length (''search'' # ds) \<ge> 2" by (cases ds) auto
  show ?thesis unfolding render_entry.simps dns_line_def s Let_def p using len by simp
qed

lemma dns_line_other:
  assumes "\<not> startswith (strip s) ''nameserver''" "\<not> startswith (strip s) ''search''"
  shows "dns_line (render_entry (Other s)) dns = dns"
  using assms by (simp add: dns_line_def strip_append_space)

lemma dns_line_entry:
  "wf_entry e \<Longrightarrow> dns_line (render_entry e) dns =
     dns\<lparr>nameservers := nameservers dns @ entry_nameservers e,
         search_domains := search_domains dns @ entry_domains e\<rparr>"
  by (cases e) (simp_all add: dns_line_nameserver dns_line_search dns_line_other
      del: render_entry.simps)

lemma fold_dns_line_entries:
  "list_all wf_entry es \<Longrightarrow> fold dns_line (map render_entry es) dns =
     dns\<lparr>nameservers := nameservers dns @ concat (map entry_nameservers es),
         search_domains := search_domains dns @ concat (map entry_domains es)\<rparr>"
  by (induction es arbitrary: dns) (simp_all add: dns_line_entry)

lemma render_entry_line: "wf_entry e \<Longrightarrow> \<exists>s. render_entry e = s @ [CHR 0x0A] \<and> CHR 0x0A \<notin> set s"
proof (cases e)
  case (Nameserver a)
  assume "wf_entry e"
  with Nameserver have "CHR 0x0A \<notin> set a" by (auto simp: token_def list_all_iff)
  with Nameserver show ?thesis by (intro exI [of _ "''nameserver '' @ a"]) simp
next
  case (Search ds)
  assume "wf_entry e"
  with Search have "CHR 0x0A \<notin> set (join_spaces ds)" by (simp add: newline_join)
  with Search show ?thesis by (intro exI [of _ "''search '' @ join_spaces ds"]) simp
next
  case (Other s)
  assume "wf_entry e"
  with Other show ?thesis by simp
qed

lemma readlines_entries:
  "list_all wf_entry es \<Longrightarrow> readlines (concat (map render_entry es)) = map render_entry es"
proof (induction es)
  case Nil
  then show ?case by (simp add: readlines_def)
next
  case (Cons e es)
  then obtain s where s: "render_entry e = s @ [CHR 0x0A]" "CHR 0x0A \<notin> set s"
    using render_entry_line [of e] by auto
  have "lines_acc [] (s @ CHR 0x0A # concat (map render_entry es)) = ([] @ s @ [CHR 0x0A]) # lines_acc [] (concat (map render_entry es))"
    using s(2) by (rule lines_acc_line)
  with Cons s(1) show ?case by (simp add: readlines_def)
qed

text \<open>
  C8. For a resolver file made of \<open>nameserver <addr>\<close> lines, \<open>search <dom1> <dom2> ...\<close>
  lines and lines that start with neither keyword, \<open>get_dns_settings\<close> returns the addresses
  of the nameserver lines and all the domains of the search lines, each in file order. In
  particular the file \<open>nameserver 8.8.8.8\<newline>search a.com b.com\<newline>\<close> yields the nameservers
  \<open>["8.8.8.8"]\<close> and the search domains \<open>["a.com", "b.com"]\<close>.
\<close>

theorem get_dns_settings_entries:
  assumes "fs h ''/etc/resolv.conf'' = Regular (concat (map render_entry es))"
    and "list_all wf_entry es"
  shows "get_dns_settings h =
     Returns \<lparr>nameservers = concat (map entry_nameservers es),
              search_domains = concat (map entry_domains es),
              resolv_conf = ''/etc/resolv.conf''\<rparr> \<and>
   get_dns_settings host_resolv_example =
     Returns \<lparr>nameservers = [''8.8.8.8''], search_domains = [''a.com'', ''b.com''],
              resolv_conf = ''/etc/resolv.conf''\<rparr>"
proof
  show "get_dns_settings h =
     Returns \<lparr>nameservers = concat (map entry_nameservers es),
              search_domains = concat (map entry_domains es),
              resolv_conf = ''/etc/resolv.conf''\<rparr>"
    using assms
    by (simp add: get_dns_settings_def os_path_exists_def open_read_def except_IOError_def
        readlines_entries fold_dns_line_entries)
  show "get_dns_settings host_resolv_example =
     Returns \<lparr>nameservers = [''8.8.8.8''], search_domains = [''a.com'', ''b.com''],
              resolv_conf = ''/etc/resolv.conf''\<rparr>"
    by code_simp
qed

theorem get_dns_settings_entries_witness:
  "fs host_resolv_example ''/etc/resolv.conf'' =
     Regular (concat (map render_entry [Nameserver ''8.8.8.8'', Search [''a.com'', ''b.com'']])) \<and>
   list_all wf_entry [Nameserver ''8.8.8.8'', Search [''a.com'', ''b.com'']] \<and>
   get_dns_settings host_resolv_example =
     Returns \<lparr>nameservers = [''8.8.8.8''], search_domains = [''a.com'', ''b.com''],
              resolv_conf = ''/etc/resolv.conf''\<rparr>"
proof -
  have f: "fs host_resolv_example ''/etc/resolv.conf'' =
     Regular (concat (map render_entry [Nameserver ''8.8.8.8'', Search [''a.com'', ''b.com'']]))"
    by (simp add: host_resolv_example_def)
  have w: "list_all wf_entry [Nameserver ''8.8.8.8'', Search [''a.com'', ''b.com'']]"
    by (simp add: token_def isspace_def)
  from get_dns_settings_entries [OF f w] f w show ?thesis by simp
qed

section \<open>The hostname module\<close>

text \<open>
  C10. When \<open>socket.gethostname()\<close> returns a name, the module exits with
  \<open>changed = False\<close> and that name in the field \<open>hostname\<close>; when it raises, the module
  reports one failure whose message begins with \<open>Failed to get hostname:\<close>.
\<close>

theorem hostname_check_main_result:
  "hostname_check_main (Returns name) =
     Returns (Hostname_exit False name (''Hostname (Python): '' @ name)) \<and>
   (\<exists>m. hostname_check_main (Raises e) = Returns (Hostname_fail m) \<and>
        startswith m ''Failed to get hostname:'')"
  using startswith_append [of "''Failed to get hostname:''" "'' '' @ str_exception e"]
  by (simp add: hostname_check_main_def)

section \<open>Sudo users: the drop-in directory\<close>

text \<open>
  C5 (an I/O error on one sudoers source is skipped). When \<open>/etc/sudoers.d\<close> exists and
  may not be listed, \<open>os.listdir\<close> raises \<open>PermissionError\<close> outside every \<open>try\<close>:
  \<open>get_sudo_users\<close> raises instead of returning the members of \<open>wheel\<close> from the readable
  group file, and the module reports the failure.
\<close>

theorem get_sudo_users_locked_dropin_raises:
  "get_sudo_users host_locked_dropin =
     Raises (PyExc PermissionError
       (''[Errno 13] Permission denied: '' @ [CHR 0x27] @ ''/etc/sudoers.d'' @ [CHR 0x27])) \<and>
   fst (system_info_main host_locked_dropin) =
     Returns (Fail_json
       (''[Errno 13] Permission denied: '' @ [CHR 0x27] @ ''/etc/sudoers.d'' @ [CHR 0x27]))"
  by code_simp

text \<open>
  The other I/O errors are guarded: when the drop-in directory is absent or can be listed,
  no missing or unreadable file makes the collector raise (the files that can be read
  being text).
\<close>

lemma sudoers_line_returns: "\<exists>acc'. sudoers_line raw acc = Returns acc'"
proof (cases "strip raw = []")
  case True
  then show ?thesis by (simp add: sudoers_line_def)
next
  case False
  then have "py_split (strip raw) \<noteq> []"
    using strip_has_visible [of raw] split_acc_not_Nil [of "[]" "strip raw"]
    by (simp add: py_split_def)
  then obtain user rest where "py_split (strip raw) = user # rest"
    by (cases "py_split (strip raw)") auto
  then show ?thesis by (simp add: sudoers_line_def Let_def)
qed

lemma fold_sudoers_returns: "\<exists>acc'. fold_outcome sudoers_line ls acc = Returns acc'"
proof (induction ls arbitrary: acc)
  case Nil
  then show ?case by simp
next
  case (Cons l ls)
  obtain acc1 where "sudoers_line l acc = Returns acc1" using sudoers_line_returns by blast
  with Cons show ?case by simp
qed

lemma scan_sudoers_returns:
  assumes "\<And>p. decodable (fs h p)"
  shows "\<exists>acc'. scan_sudoers h files acc = Returns acc'"
proof (induction files arbitrary: acc)
  case Nil
  then show ?case by simp
next
  case (Cons f files)
  have "\<exists>acc1. except_IOError
          (bind_outcome (open_read h f)
             (\<lambda>content. fold_outcome sudoers_line (readlines content) acc)) acc = Returns acc1"
  proof (cases "fs h f")
    case (Regular content)
    obtain acc1 where "fold_outcome sudoers_line (readlines content) acc = Returns acc1"
      using fold_sudoers_returns by blast
    with Regular show ?thesis by (simp add: open_read_def except_IOError_def)
  next
    case (Garbled m)
    with assms [of f] show ?thesis by (simp add: decodable_def)
  qed (simp_all add: open_read_def except_IOError_def)
  then obtain acc1 where "except_IOError
          (bind_outcome (open_read h f)
             (\<lambda>content. fold_outcome sudoers_line (readlines content) acc)) acc = Returns acc1"
    by blast
  with Cons show ?case by simp
qed

lemma get_sudo_users_returns:
  assumes "fs h ''/etc/sudoers.d'' = Absent \<or> (\<exists>names. fs h ''/etc/sudoers.d'' = Folder names)"
    and "\<And>p. decodable (fs h p)"
  shows "\<exists>users. get_sudo_users h = Returns users"
proof -
  from assms(1) obtain files where f: "sudoers_files h = Returns files"
    by (auto simp: sudoers_files_def os_path_exists_def os_listdir_def)
  obtain acc where a: "scan_sudoers h files [] = Returns acc"
    using scan_sudoers_returns [OF assms(2)] by blast
  have "\<exists>acc'. except_IOError
          (bind_outcome (open_read h ''/etc/group'')
             (\<lambda>content. Returns (fold group_line (readlines content) acc))) acc = Returns acc'"
    using assms(2) [of "''/etc/group''"]
    by (cases "fs h ''/etc/group''") (simp_all add: open_read_def except_IOError_def decodable_def)
  with f a show ?thesis by (auto simp: get_sudo_users_def)
qed

section \<open>NTP settings: no backend\<close>

text \<open>
  C4. When \<open>which\<close> exits with a non-zero status for \<open>chronyd\<close>, \<open>ntpd\<close> and
  \<open>systemd-timesyncd\<close>, \<open>get_ntp_settings\<close> returns the initial dictionary: the service is
  \<open>unknown\<close> (no service), \<open>enabled\<close> is false, \<open>servers\<close> is empty and the raw status is
  \<open>unknown\<close>; only the three presence checks have been run.
\<close>

theorem get_ntp_settings_no_backend:
  assumes "commands h ''which chronyd'' = Completed rc1 out1 err1" and "rc1 \<noteq> 0"
    and "commands h ''which ntpd'' = Completed rc2 out2 err2" and "rc2 \<noteq> 0"
    and "commands h ''which systemd-timesyncd'' = Completed rc3 out3 err3" and "rc3 \<noteq> 0"
  shows "get_ntp_settings h =
     (Returns \<lparr>service = ''unknown'', enabled = False, servers = [], status = ''unknown''\<rparr>,
      [''which chronyd'', ''which ntpd'', ''which systemd-timesyncd''])"
  using assms
  by (simp add: get_ntp_settings_def check_chronyd_def check_ntpd_def check_timesyncd_def
      run_command_def bind_def ret_def)

theorem get_ntp_settings_no_backend_witness:
  "commands host_bare ''which chronyd'' = Completed 1 [] [] \<and>
   commands host_bare ''which ntpd'' = Completed 1 [] [] \<and>
   commands host_bare ''which systemd-timesyncd'' = Completed 1 [] [] \<and>
   get_ntp_settings host_bare =
     (Returns \<lparr>service = ''unknown'', enabled = False, servers = [], status = ''unknown''\<rparr>,
      [''which chronyd'', ''which ntpd'', ''which systemd-timesyncd''])"
  using get_ntp_settings_no_backend [of host_bare 1 "[]" "[]" 1 "[]" "[]" 1 "[]" "[]"]
  by (simp add: host_bare_def)

section \<open>NTP settings: the order of the probes\<close>

lemma timesync_line_returns: "\<exists>acc'. timesync_line line acc = Returns acc'"
proof (cases "str_in ''ServerName='' line")
  case True
  then have "CHR ''='' \<in> set line" using str_in_set [of "''ServerName=''" line] by auto
  then obtain a b rest where "split_on CHR ''='' line = a # b # rest"
    using split_on_two by blast
  with True show ?thesis by (simp add: timesync_line_def Let_def)
next
  case False
  then show ?thesis by (simp add: timesync_line_def)
qed

lemma fold_timesync_returns: "\<exists>acc'. fold_outcome timesync_line ls acc = Returns acc'"
proof (induction ls arbitrary: acc)
  case Nil
  then show ?case by simp
next
  case (Cons l ls)
  obtain acc1 where "timesync_line l acc = Returns acc1" using timesync_line_returns by blast
  with Cons show ?case by simp
qed

lemma ntp_chronyd_first:
  assumes "commands h ''which chronyd'' = Completed 0 out_c err_c"
    and "commands h ''systemctl is-active chronyd'' = Completed rc_ca out_ca err_ca"
    and "commands h ''which ntpd'' = Completed rc_n out_n err_n"
    and "commands h ''which systemd-timesyncd'' = Completed rc_t out_t err_t"
    and "decodable (fs h ''/etc/chrony.conf'')"
  shows "get_ntp_settings h =
    (Returns \<lparr>service = ''chronyd'', enabled = (strip out_ca = ''active''),
              servers = config_servers chrony_line (fs h ''/etc/chrony.conf''),
              status = strip out_ca\<rparr>,
     [''which chronyd'', ''systemctl is-active chronyd'', ''which ntpd'',
      ''which systemd-timesyncd''])"
  using assms
  by (cases "fs h ''/etc/chrony.conf''")
     (simp_all add: get_ntp_settings_def check_chronyd_def check_ntpd_def check_timesyncd_def
      run_command_def bind_def ret_def lift_def os_path_exists_def open_read_def
      except_IOError_def Let_def decodable_def config_servers_def)

lemma ntp_ntpd_second:
  assumes "commands h ''which chronyd'' = Completed rc_c out_c err_c" and "rc_c \<noteq> 0"
    and "commands h ''which ntpd'' = Completed 0 out_n err_n"
    and "commands h ''systemctl is-active ntpd'' = Completed rc_na out_na err_na"
    and "commands h ''which systemd-timesyncd'' = Completed rc_t out_t err_t"
    and "decodable (fs h ''/etc/ntp.conf'')"
  shows "get_ntp_settings h =
    (Returns \<lparr>service = ''ntpd'', enabled = (strip out_na = ''active''),
              servers = config_servers ntp_conf_line (fs h ''/etc/ntp.conf''),
              status = strip out_na\<rparr>,
     [''which chronyd'', ''which ntpd'', ''systemctl is-active ntpd'',
      ''which systemd-timesyncd''])"
  using assms
  by (cases "fs h ''/etc/ntp.conf''")
     (simp_all add: get_ntp_settings_def check_chronyd_def check_ntpd_def check_timesyncd_def
      run_command_def bind_def ret_def lift_def os_path_exists_def open_read_def
      except_IOError_def Let_def decodable_def config_servers_def)

lemma ntp_timesyncd_third:
  assumes "commands h ''which chronyd'' = Completed rc_c out_c err_c" and "rc_c \<noteq> 0"
    and "commands h ''which ntpd'' = Completed rc_n out_n err_n" and "rc_n \<noteq> 0"
    and "commands h ''which systemd-timesyncd'' = Completed 0 out_t err_t"
    and "commands h ''systemctl is-active systemd-timesyncd'' = Completed rc_ta out_ta err_ta"
    and "commands h ''timedatectl show-timesync --all'' = Completed rc_td out_td err_td"
  shows "\<exists>srv. fold_outcome timesync_line (split_on CHR 0x0A out_td) [] = Returns srv \<and>
    get_ntp_settings h =
    (Returns \<lparr>service = ''systemd-timesyncd'', enabled = (strip out_ta = ''active''),
              servers = (if rc_td = 0 then srv else []), status = strip out_ta\<rparr>,
     [''which chronyd'', ''which ntpd'', ''which systemd-timesyncd'',
      ''systemctl is-active systemd-timesyncd'', ''timedatectl show-timesync --all''])"
proof -
  obtain srv where "fold_outcome timesync_line (split_on CHR 0x0A out_td) [] = Returns srv"
    using fold_timesync_returns by blast
  with assms show ?thesis
    by (simp add: get_ntp_settings_def check_chronyd_def check_ntpd_def check_timesyncd_def
      run_command_def bind_def ret_def lift_def Let_def)
qed

text \<open>
  C3, as the code has it. The presence check \<open>which\<close> is run for all three backends in the
  order \<open>chronyd\<close>, \<open>ntpd\<close>, \<open>systemd-timesyncd\<close>, also after a backend has been found. Only
  the first backend found present has its status query run and its servers extracted:
  the service, \<open>enabled\<close>, the status and the servers of the result are those of that backend
  alone, whatever the configuration files and the commands of the other backends hold.
\<close>

theorem get_ntp_settings_priority:
  "(commands h ''which chronyd'' = Completed 0 out_c err_c \<and>
    commands h ''systemctl is-active chronyd'' = Completed rc_ca out_ca err_ca \<and>
    commands h ''which ntpd'' = Completed rc_n out_n err_n \<and>
    commands h ''which systemd-timesyncd'' = Completed rc_t out_t err_t \<and>
    decodable (fs h ''/etc/chrony.conf'') \<longrightarrow>
    get_ntp_settings h =
      (Returns \<lparr>service = ''chronyd'', enabled = (strip out_ca = ''active''),
                servers = config_servers chrony_line (fs h ''/etc/chrony.conf''),
                status = strip out_ca\<rparr>,
       [''which chronyd'', ''systemctl is-active chronyd'', ''which ntpd'',
        ''which systemd-timesyncd''])) \<and>
   (commands h ''which chronyd'' = Completed rc_c out_c err_c \<and> rc_c \<noteq> 0 \<and>
    commands h ''which ntpd'' = Completed 0 out_n err_n \<and>
    commands h ''systemctl is-active ntpd'' = Completed rc_na out_na err_na \<and>
    commands h ''which systemd-timesyncd'' = Completed rc_t out_t err_t \<and>
    decodable (fs h ''/etc/ntp.conf'') \<longrightarrow>
    get_ntp_settings h =
      (Returns \<lparr>service = ''ntpd'', enabled = (strip out_na = ''active''),
                servers = config_servers ntp_conf_line (fs h ''/etc/ntp.conf''),
                status = strip out_na\<rparr>,
       [''which chronyd'', ''which ntpd'', ''systemctl is-active ntpd'',
        ''which systemd-timesyncd''])) \<and>
   (commands h ''which chronyd'' = Completed rc_c out_c err_c \<and> rc_c \<noteq> 0 \<and>
    commands h ''which ntpd'' = Completed rc_n out_n err_n \<and> rc_n \<noteq> 0 \<and>
    commands h ''which systemd-timesyncd'' = Completed 0 out_t err_t \<and>
    commands h ''systemctl is-active systemd-timesyncd'' = Completed rc_ta out_ta err_ta \<and>
    commands h ''timedatectl show-timesync --all'' = Completed rc_td out_td err_td \<longrightarrow>
    (\<exists>srv. fold_outcome timesync_line (split_on CHR 0x0A out_td) [] = Returns srv \<and>
      get_ntp_settings h =
        (Returns \<lparr>service = ''systemd-timesyncd'', enabled = (strip out_ta = ''active''),
                  servers = (if rc_td = 0 then srv else []), status = strip out_ta\<rparr>,
         [''which chronyd'', ''which ntpd'', ''which systemd-timesyncd'',
          ''systemctl is-active systemd-timesyncd'', ''timedatectl show-timesync --all''])))"
  using ntp_chronyd_first [of h out_c err_c rc_ca out_ca err_ca rc_n out_n err_n rc_t out_t err_t]
    ntp_ntpd_second [of h rc_c out_c err_c out_n err_n rc_na out_na err_na rc_t out_t err_t]
    ntp_timesyncd_third [of h rc_c out_c err_c rc_n out_n err_n out_t err_t rc_ta out_ta err_ta
      rc_td out_td err_td]
  by blast

theorem get_ntp_settings_priority_witness:
  "get_ntp_settings host_chronyd_ntpd =
     (Returns \<lparr>service = ''chronyd'', enabled = True,
               servers = [''2.pool.ntp.org'', ''10.0.0.1''], status = ''active''\<rparr>,
      [''which chronyd'', ''systemctl is-active chronyd'', ''which ntpd'',
       ''which systemd-timesyncd'']) \<and>
   get_ntp_settings host_ntpd =
     (Returns \<lparr>service = ''ntpd'', enabled = False,
               servers = [''0.pool.ntp.org''], status = ''inactive''\<rparr>,
      [''which chronyd'', ''which ntpd'', ''systemctl is-active ntpd'',
       ''which systemd-timesyncd'']) \<and>
   get_ntp_settings host_timesyncd =
     (Returns \<lparr>service = ''systemd-timesyncd'', enabled = True,
               servers = [''ntp.ubuntu.com''], status = ''active''\<rparr>,
      [''which chronyd'', ''which ntpd'', ''which systemd-timesyncd'',
       ''systemctl is-active systemd-timesyncd'', ''timedatectl show-timesync --all''])"
proof -
  have a: "commands host_chronyd_ntpd ''which chronyd'' = Completed 0 ''/usr/sbin/chronyd\<newline>'' [] \<and>
    commands host_chronyd_ntpd ''systemctl is-active chronyd'' = Completed 0 ''active\<newline>'' [] \<and>
    commands host_chronyd_ntpd ''which ntpd'' = Completed 0 ''/usr/sbin/ntpd\<newline>'' [] \<and>
    commands host_chronyd_ntpd ''which systemd-timesyncd'' = Completed 1 [] [] \<and>
    decodable (fs host_chronyd_ntpd ''/etc/chrony.conf'')"
    by (simp add: host_chronyd_ntpd_def decodable_def)
  have b: "commands host_ntpd ''which chronyd'' = Completed 1 [] [] \<and> (1::int) \<noteq> 0 \<and>
    commands host_ntpd ''which ntpd'' = Completed 0 ''/usr/sbin/ntpd\<newline>'' [] \<and>
    commands host_ntpd ''systemctl is-active ntpd'' = Completed 3 ''inactive\<newline>'' [] \<and>
    commands host_ntpd ''which systemd-timesyncd'' =
      Completed 0 ''/lib/systemd/systemd-timesyncd\<newline>'' [] \<and>
    decodable (fs host_ntpd ''/etc/ntp.conf'')"
    by (simp add: host_ntpd_def decodable_def)
  have c: "commands host_timesyncd ''which chronyd'' = Completed 1 [] [] \<and> (1::int) \<noteq> 0 \<and>
    commands host_timesyncd ''which ntpd'' = Completed 1 [] [] \<and> (1::int) \<noteq> 0 \<and>
    commands host_timesyncd ''which systemd-timesyncd'' =
      Completed 0 ''/lib/systemd/systemd-timesyncd\<newline>'' [] \<and>
    commands host_timesyncd ''systemctl is-active systemd-timesyncd'' =
      Completed 0 ''active\<newline>'' [] \<and>
    commands host_timesyncd ''timedatectl show-timesync --all'' =
      Completed 0 ''LinkNTPServers=\<newline>ServerName=ntp.ubuntu.com\<newline>'' []"
    by (simp add: host_timesyncd_def)
  have ev: "strip ''active\<newline>'' = ''active''" "strip ''inactive\<newline>'' = ''inactive''"
    "config_servers chrony_line (fs host_chronyd_ntpd ''/etc/chrony.conf'') =
       [''2.pool.ntp.org'', ''10.0.0.1'']"
    "config_servers ntp_conf_line (fs host_ntpd ''/etc/ntp.conf'') = [''0.pool.ntp.org'']"
    "fold_outcome timesync_line
       (split_on CHR 0x0A ''LinkNTPServers=\<newline>ServerName=ntp.ubuntu.com\<newline>'') [] =
       Returns [''ntp.ubuntu.com'']"
    by code_simp+
  from a have "get_ntp_settings host_chronyd_ntpd =
      (Returns \<lparr>service = ''chronyd'', enabled = (strip ''active\<newline>'' = ''active''),
                servers = config_servers chrony_line (fs host_chronyd_ntpd ''/etc/chrony.conf''),
                status = strip ''active\<newline>''\<rparr>,
       [''which chronyd'', ''systemctl is-active chronyd'', ''which ntpd'',
        ''which systemd-timesyncd''])"
    using get_ntp_settings_priority [where h = host_chronyd_ntpd
        and out_c = "''/usr/sbin/chronyd\<newline>''" and err_c = "[]"
        and rc_ca = 0 and out_ca = "''active\<newline>''" and err_ca = "[]"
        and rc_n = 0 and out_n = "''/usr/sbin/ntpd\<newline>''" and err_n = "[]"
        and rc_t = 1 and out_t = "[]" and err_t = "[]"]
    by blast
  then have 1: "get_ntp_settings host_chronyd_ntpd =
     (Returns \<lparr>service = ''chronyd'', enabled = True,
               servers = [''2.pool.ntp.org'', ''10.0.0.1''], status = ''active''\<rparr>,
      [''which chronyd'', ''systemctl is-active chronyd'', ''which ntpd'',
       ''which systemd-timesyncd''])"
    unfolding ev by simp
  from b have "get_ntp_settings host_ntpd =
      (Returns \<lparr>service = ''ntpd'', enabled = (strip ''inactive\<newline>'' = ''active''),
                servers = config_servers ntp_conf_line (fs host_ntpd ''/etc/ntp.conf''),
                status = strip ''inactive\<newline>''\<rparr>,
       [''which chronyd'', ''which ntpd'', ''systemctl is-active ntpd'',
        ''which systemd-timesyncd''])"
    using get_ntp_settings_priority [where h = host_ntpd
        and rc_c = 1 and out_c = "[]" and err_c = "[]"
        and out_n = "''/usr/sbin/ntpd\<newline>''" and err_n = "[]"
        and rc_na = 3 and out_na = "''inactive\<newline>''" and err_na = "[]" and rc_t = 0
        and out_t = "''/lib/systemd/systemd-timesyncd\<newline>''" and err_t = "[]"]
    by blast
  then have 2: "get_ntp_settings host_ntpd =
     (Returns \<lparr>service = ''ntpd'', enabled = False,
               servers = [''0.pool.ntp.org''], status = ''inactive''\<rparr>,
      [''which chronyd'', ''which ntpd'', ''systemctl is-active ntpd'',
       ''which systemd-timesyncd''])"
    unfolding ev by simp
  from c obtain srv where
    "fold_outcome timesync_line
       (split_on CHR 0x0A ''LinkNTPServers=\<newline>ServerName=ntp.ubuntu.com\<newline>'') [] = Returns srv"
    "get_ntp_settings host_timesyncd =
      (Returns \<lparr>service = ''systemd-timesyncd'', enabled = (strip ''active\<newline>'' = ''active''),
                servers = (if (0::int) = 0 then srv else []), status = strip ''active\<newline>''\<rparr>,
       [''which chronyd'', ''which ntpd'', ''which systemd-timesyncd'',
        ''systemctl is-active systemd-timesyncd'', ''timedatectl show-timesync --all''])"
    using get_ntp_settings_priority [where h = host_timesyncd
        and rc_c = 1 and out_c = "[]" and err_c = "[]"
        and rc_n = 1 and out_n = "[]" and err_n = "[]"
        and out_t = "''/lib/systemd/systemd-timesyncd\<newline>''" and err_t = "[]"
        and rc_ta = 0 and out_ta = "''active\<newline>''" and err_ta = "[]" and rc_td = 0
        and out_td = "''LinkNTPServers=\<newline>ServerName=ntp.ubuntu.com\<newline>''"
        and err_td = "[]"]
    by blast
  then have 3: "get_ntp_settings host_timesyncd =
     (Returns \<lparr>service = ''systemd-timesyncd'', enabled = True,
               servers = [''ntp.ubuntu.com''], status = ''active''\<rparr>,
      [''which chronyd'', ''which ntpd'', ''which systemd-timesyncd'',
       ''systemctl is-active systemd-timesyncd'', ''timedatectl show-timesync --all''])"
    unfolding ev by simp
  from 1 2 3 show ?thesis by (intro conjI)
qed

text \<open>
  On a host where \<open>chronyd\<close> is detected, the collector goes on to run \<open>which ntpd\<close> and
  \<open>which systemd-timesyncd\<close>.
\<close>

theorem get_ntp_settings_probes_lower_priority:
  "commands host_chronyd_ntpd ''which chronyd'' = Completed 0 ''/usr/sbin/chronyd\<newline>'' [] \<and>
   snd (get_ntp_settings host_chronyd_ntpd) =
     [''which chronyd'', ''systemctl is-active chronyd'', ''which ntpd'',
      ''which systemd-timesyncd'']"
  by code_simp

section \<open>IPv6 status: the live addresses\<close>

text \<open>
  C1 (the override law, at an address that merely contains \<open>::1\<close>). The boot parameter
  \<open>ipv6.disable=1\<close> is configured and the live query succeeds and lists the loopback address
  and the link-local address \<open>fe80::1\<close>. The line of \<open>fe80::1\<close> is an \<open>inet6\<close> line and is
  not the loopback address, yet the test \<open>'::1' not in line\<close> rejects it: the collector
  keeps \<open>disabled = True\<close> and reports the status \<open>disabled\<close>.
\<close>

theorem get_ipv6_status_linklocal_not_overridden:
  "fst (get_ipv6_status host_grub_linklocal) =
     Returns \<lparr>disabled = True, disable_method = [''grub''], sysctl_values = [],
              live_status = Some ''disabled''\<rparr>"
  by code_simp

text \<open>
  What the collector does guarantee: when the kernel-parameter queries exit, the bootloader
  files that can be read are text, the live query succeeds and one of its lines contains
  \<open>inet6\<close> and does not contain the characters \<open>::1\<close>, the result has \<open>disabled = False\<close>
  and the status \<open>enabled\<close>, whatever the first two passes found.
\<close>

lemma live_line_visible:
  assumes "list_ex live_line (split_on CHR 0x0A out)"
  shows "strip out \<noteq> []"
proof -
  from assms obtain l where l: "l \<in> set (split_on CHR 0x0A out)" "str_in ''inet6'' l"
    by (auto simp: list_ex_iff live_line_def)
  from l(2) have "CHR ''i'' \<in> set l" using str_in_set [of "''inet6''" l] by auto
  with l(1) have "CHR ''i'' \<in> set out" using split_on_set by blast
  moreover have "\<not> isspace CHR ''i''" by (simp add: isspace_def)
  ultimately show ?thesis using strip_Nil_iff by blast
qed

lemma live_pass_override:
  assumes "commands h ''ip -6 addr show'' = Completed 0 out err"
    and "list_ex live_line (split_on CHR 0x0A out)"
  shows "live_pass h info =
    (Returns (info\<lparr>live_status := Some ''enabled'', disabled := False\<rparr>), [''ip -6 addr show''])"
  using assms live_line_visible [OF assms(2)]
  by (simp add: live_pass_def bind_def run_command_def ret_def)

lemma sysctl_pass_returns:
  "\<forall>param\<in>set params. \<exists>rc out err. commands h (''sysctl '' @ param) = Completed rc out err \<Longrightarrow>
   \<exists>info'. fst (sysctl_pass h params info) = Returns info'"
proof (induction params arbitrary: info)
  case Nil
  then show ?case by (simp add: ret_def)
next
  case (Cons param params)
  then obtain rc out err where "commands h (''sysctl '' @ param) = Completed rc out err"
    by auto
  moreover obtain info' where
    "fst (sysctl_pass h params (if rc = 0 then sysctl_record param out info else info)) = Returns info'"
    using Cons by fastforce
  ultimately show ?case by (simp add: bind_def run_command_def)
qed

lemma grub_file_check_returns:
  "decodable (fs h f) \<Longrightarrow> \<exists>info'. grub_file_check h f info = Returns info'"
  by (cases "fs h f")
     (simp_all add: grub_file_check_def os_path_exists_def open_read_def except_IOError_def
       Let_def decodable_def)

lemma fold_grub_returns:
  "\<forall>f\<in>set files. decodable (fs h f) \<Longrightarrow>
   \<exists>info'. fold_outcome (grub_file_check h) files info = Returns info'"
proof (induction files arbitrary: info)
  case Nil
  then show ?case by simp
next
  case (Cons f files)
  then obtain info1 where "grub_file_check h f info = Returns info1"
    using grub_file_check_returns [of h f info] by auto
  with Cons show ?case by simp
qed

lemma get_ipv6_status_override:
  assumes "\<forall>param\<in>set sysctl_params.
             \<exists>rc out err. commands h (''sysctl '' @ param) = Completed rc out err"
    and "\<forall>f\<in>set grub_files. decodable (fs h f)"
    and "commands h ''ip -6 addr show'' = Completed 0 out err"
    and "list_ex live_line (split_on CHR 0x0A out)"
  shows "\<exists>r. fst (get_ipv6_status h) = Returns r \<and> \<not> disabled r \<and>
           live_status r = Some ''enabled''"
proof -
  let ?init = "\<lparr>disabled = False, disable_method = [], sysctl_values = [], live_status = None\<rparr>"
  obtain info1 where s: "fst (sysctl_pass h sysctl_params ?init) = Returns info1"
    using sysctl_pass_returns [OF assms(1)] by blast
  obtain info2 where g: "fold_outcome (grub_file_check h) grub_files info1 = Returns info2"
    using fold_grub_returns [OF assms(2)] by blast
  have "fst (get_ipv6_status h) =
      Returns (info2\<lparr>live_status := Some ''enabled'', disabled := False\<rparr>)"
    by (simp add: get_ipv6_status_def bind_def lift_def s g
        live_pass_override [OF assms(3) assms(4)])
  then show ?thesis by simp
qed

section \<open>IPv6 status: the recorded methods\<close>

text \<open>
  C2 (the method \<open>sysctl\<close> is recorded at most once). When all three kernel parameters
  have the value \<open>1\<close>, the collector appends \<open>sysctl\<close> once per parameter: the method
  occurs three times in \<open>disable_method\<close>.
\<close>

theorem get_ipv6_status_sysctl_thrice:
  "fst (get_ipv6_status host_sysctl_all) =
     Returns \<lparr>disabled = True, disable_method = [''sysctl'', ''sysctl'', ''sysctl''],
              sysctl_values =
                [(''net.ipv6.conf.all.disable_ipv6'', ''1''),
                 (''net.ipv6.conf.default.disable_ipv6'', ''1''),
                 (''net.ipv6.conf.lo.disable_ipv6'', ''1'')],
              live_status = None\<rparr>"
  by code_simp

section \<open>IPv6 status: no evidence at all\<close>

lemma sysctl_pass_quiet:
  assumes "list_all (\<lambda>param. case commands h (''sysctl '' @ param) of
                  Completed rc out err \<Rightarrow> \<not> (rc = 0 \<and> sysctl_value out = ''1'')
                | _ \<Rightarrow> False) params"
  shows "\<exists>info' log. sysctl_pass h params info = (Returns info', log) \<and>
           disabled info' = disabled info \<and> disable_method info' = disable_method info \<and>
           live_status info' = live_status info"
  using assms
proof (induction params arbitrary: info)
  case Nil
  then show ?case by (simp add: ret_def)
next
  case (Cons param params)
  then obtain rc out err where c: "commands h (''sysctl '' @ param) = Completed rc out err"
     and q: "\<not> (rc = 0 \<and> sysctl_value out = ''1'')"
    by (auto split: cmd_result.splits)
  let ?info = "if rc = 0 then sysctl_record param out info else info"
  from q have same: "disabled ?info = disabled info" "disable_method ?info = disable_method info"
     "live_status ?info = live_status info"
    by (auto simp: sysctl_record_def Let_def)
  from Cons.IH [of ?info] Cons.prems obtain info' log where
    r: "sysctl_pass h params ?info = (Returns info', log)"
       "disabled info' = disabled ?info" "disable_method info' = disable_method ?info"
       "live_status info' = live_status ?info" by auto
  have "sysctl_pass h (param # params) info = (Returns info', (''sysctl '' @ param) # log)"
    using c r(1) by (simp add: bind_def run_command_def)
  with r same show ?case by metis
qed

lemma grub_pass_quiet:
  assumes "list_all (\<lambda>grub_file. case fs h grub_file of
                  Regular content \<Rightarrow> \<not> str_in ''ipv6.disable=1'' content
                | Garbled m \<Rightarrow> False
                | _ \<Rightarrow> True) files"
  shows "fold_outcome (grub_file_check h) files info = Returns info"
  using assms
proof (induction files)
  case Nil
  then show ?case by simp
next
  case (Cons f files)
  then have "grub_file_check h f info = Returns info"
    by (cases "fs h f")
       (simp_all add: grub_file_check_def os_path_exists_def open_read_def except_IOError_def)
  with Cons show ?case by simp
qed

lemma live_pass_quiet:
  assumes "no_live_address h" "\<not> disabled info"
  shows "\<exists>log. live_pass h info = (Returns info, log)"
  using assms
  by (auto simp: no_live_address_def live_pass_def bind_def run_command_def ret_def
      split: cmd_result.splits)

text \<open>
  C7. When no kernel-parameter query yields the value \<open>1\<close>, no readable bootloader file
  contains \<open>ipv6.disable=1\<close>, and the live query finds no address, \<open>get_ipv6_status\<close>
  returns with \<open>disabled = False\<close>, no recorded method, and the key \<open>status\<close> absent.
\<close>

theorem get_ipv6_status_no_evidence:
  assumes "no_sysctl_evidence h" and "no_grub_evidence h" and "no_live_address h"
  shows "\<exists>r log. get_ipv6_status h = (Returns r, log) \<and> \<not> disabled r \<and> live_status r = None
            \<and> disable_method r = []"
proof -
  let ?init = "\<lparr>disabled = False, disable_method = [], sysctl_values = [], live_status = None\<rparr>"
  from assms(1) obtain info1 log1 where
    s: "sysctl_pass h sysctl_params ?init = (Returns info1, log1)"
       "disabled info1 = disabled ?init" "disable_method info1 = disable_method ?init"
       "live_status info1 = live_status ?init"
    unfolding no_sysctl_evidence_def using sysctl_pass_quiet [of h sysctl_params ?init] by blast
  from assms(2) have g: "fold_outcome (grub_file_check h) grub_files info1 = Returns info1"
    unfolding no_grub_evidence_def by (rule grub_pass_quiet)
  from s(2) have "\<not> disabled info1" by simp
  with assms(3) obtain log3 where l: "live_pass h info1 = (Returns info1, log3)"
    using live_pass_quiet by blast
  have "get_ipv6_status h = (Returns info1, log1 @ log3)"
    by (simp add: get_ipv6_status_def bind_def lift_def s(1) g l)
  with s show ?thesis by simp
qed

theorem get_ipv6_status_no_evidence_witness:
  "no_sysctl_evidence host_ipv6_quiet \<and> no_grub_evidence host_ipv6_quiet \<and>
   no_live_address host_ipv6_quiet \<and>
   (\<exists>r log. get_ipv6_status host_ipv6_quiet = (Returns r, log) \<and> \<not> disabled r \<and>
      live_status r = None \<and> disable_method r = [])"
proof -
  have 1: "no_sysctl_evidence host_ipv6_quiet" by code_simp
  have 2: "no_grub_evidence host_ipv6_quiet" by code_simp
  have 3: "no_live_address host_ipv6_quiet" by code_simp
  from get_ipv6_status_no_evidence [OF 1 2 3] 1 2 3 show ?thesis by blast
qed

section \<open>Commands that never exit\<close>

lemma stall_hangs_ret: "stall_hangs h (ret x)"
  by (simp add: stall_hangs_def ret_def)

lemma stall_hangs_lift: "stall_hangs h (lift r)"
  by (simp add: stall_hangs_def lift_def)

lemma stall_hangs_run_command: "stall_hangs h (run_command h cmd)"
  by (simp add: stall_hangs_def run_command_def split: cmd_result.splits)

lemma stall_hangs_bind:
  assumes "stall_hangs h m" and "\<And>x. stall_hangs h (f x)"
  shows "stall_hangs h (bind m f)"
proof (cases "fst m")
  case (Returns x)
  with assms(1) have "\<not> list_ex (\<lambda>c. commands h c = Stalled) (snd m)"
    by (auto simp: stall_hangs_def split: if_splits)
  with assms(2) [of x] Returns show ?thesis
    by (auto simp: stall_hangs_def bind_def list_ex_iff split: if_splits)
next
  case (Raises e)
  with assms(1) show ?thesis by (auto simp: stall_hangs_def bind_def split: if_splits)
next
  case Hangs
  then show ?thesis by (simp add: stall_hangs_def bind_def)
next
  case (Aborts msg)
  with assms(1) show ?thesis by (auto simp: stall_hangs_def bind_def split: if_splits)
qed

lemma stall_hangs_check_chronyd: "stall_hangs h (check_chronyd h ntp)"
  unfolding check_chronyd_def
  by (intro stall_hangs_bind stall_hangs_run_command)
     (auto simp: Let_def stall_hangs_ret stall_hangs_lift
        intro!: stall_hangs_bind stall_hangs_run_command)

lemma stall_hangs_check_ntpd: "stall_hangs h (check_ntpd h ntp)"
  unfolding check_ntpd_def
  by (intro stall_hangs_bind stall_hangs_run_command)
     (auto simp: Let_def stall_hangs_ret stall_hangs_lift
        intro!: stall_hangs_bind stall_hangs_run_command)

lemma stall_hangs_check_timesyncd: "stall_hangs h (check_timesyncd h ntp)"
  unfolding check_timesyncd_def
  by (intro stall_hangs_bind stall_hangs_run_command)
     (auto simp: Let_def stall_hangs_ret stall_hangs_lift
        intro!: stall_hangs_bind stall_hangs_run_command)

lemma stall_hangs_get_ntp_settings: "stall_hangs h (get_ntp_settings h)"
  unfolding get_ntp_settings_def Let_def
  by (intro stall_hangs_bind stall_hangs_check_chronyd stall_hangs_check_ntpd
      stall_hangs_check_timesyncd)

lemma stall_hangs_sysctl_pass: "stall_hangs h (sysctl_pass h params info)"
proof (induction params arbitrary: info)
  case Nil
  then show ?case by (simp add: stall_hangs_ret)
next
  case (Cons param params)
  show ?case
    unfolding sysctl_pass.simps
    by (intro stall_hangs_bind stall_hangs_run_command) (auto simp: Cons)
qed

lemma stall_hangs_live_pass: "stall_hangs h (live_pass h info)"
  unfolding live_pass_def
  by (intro stall_hangs_bind stall_hangs_run_command) (auto simp: Let_def stall_hangs_ret)

lemma stall_hangs_get_ipv6_status: "stall_hangs h (get_ipv6_status h)"
  unfolding get_ipv6_status_def Let_def
  by (intro stall_hangs_bind stall_hangs_sysctl_pass stall_hangs_lift stall_hangs_live_pass)

lemma stall_hangs_try_main: "stall_hangs h body \<Longrightarrow> stall_hangs h (try_main body)"
  by (cases "fst body") (auto simp: stall_hangs_def try_main_def split: if_splits)

lemma stall_hangs_system_info_main: "stall_hangs h (system_info_main h)"
  unfolding system_info_main_def run_collectors_def
  by (intro stall_hangs_try_main stall_hangs_bind stall_hangs_lift stall_hangs_ret
      stall_hangs_get_ntp_settings stall_hangs_get_ipv6_status)

lemma stall_hangsD:
  "stall_hangs h t \<Longrightarrow> (\<exists>c\<in>set (snd t). commands h c = Stalled) \<longrightarrow> fst t = Hangs"
  by (auto simp: stall_hangs_def list_ex_iff split: if_splits)

lemma snd_bind_Cons: "snd m = c # r \<Longrightarrow> \<exists>rest. snd (bind m f) = c # rest"
  by (cases "fst m") (simp_all add: bind_def)

lemma snd_run_command: "snd (run_command h cmd) = [cmd]"
  by (cases "commands h cmd") (simp_all add: run_command_def)

lemma get_ntp_settings_starts: "\<exists>rest. snd (get_ntp_settings h) = ''which chronyd'' # rest"
proof -
  obtain r1 where "snd (check_chronyd h
      \<lparr>service = ''unknown'', enabled = False, servers = [], status = ''unknown''\<rparr>) =
      ''which chronyd'' # r1"
    unfolding check_chronyd_def using snd_bind_Cons [OF snd_run_command] by blast
  then show ?thesis
    unfolding get_ntp_settings_def Let_def by (rule snd_bind_Cons)
qed

text \<open>
  C9, as the code has it. \<open>module.run_command\<close> is called with the command line alone:
  no invocation carries a timeout. When a command that \<open>get_ntp_settings\<close>,
  \<open>get_ipv6_status\<close> or the module runs never exits, the call never returns: it neither
  degrades to the outcome of a missing binary nor becomes a fault. \<open>which chronyd\<close> is
  always run, so the probe hangs when it stalls.
\<close>

theorem stalled_command_hangs_probe:
  "((\<exists>c\<in>set (snd (get_ntp_settings h)). commands h c = Stalled) \<longrightarrow>
      fst (get_ntp_settings h) = Hangs) \<and>
   ((\<exists>c\<in>set (snd (get_ipv6_status h)). commands h c = Stalled) \<longrightarrow>
      fst (get_ipv6_status h) = Hangs) \<and>
   ((\<exists>c\<in>set (snd (system_info_main h)). commands h c = Stalled) \<longrightarrow>
      fst (system_info_main h) = Hangs) \<and>
   (commands h ''which chronyd'' = Stalled \<longrightarrow> fst (get_ntp_settings h) = Hangs)"
proof -
  note n = stall_hangsD [OF stall_hangs_get_ntp_settings [of h]]
  note i = stall_hangsD [OF stall_hangs_get_ipv6_status [of h]]
  note m = stall_hangsD [OF stall_hangs_system_info_main [of h]]
  have "fst (get_ntp_settings h) = Hangs" if "commands h ''which chronyd'' = Stalled"
  proof -
    obtain rest where "snd (get_ntp_settings h) = ''which chronyd'' # rest"
      using get_ntp_settings_starts by blast
    with that have "\<exists>c\<in>set (snd (get_ntp_settings h)). commands h c = Stalled" by simp
    with n show ?thesis by blast
  qed
  with n i m show ?thesis by blast
qed

theorem stalled_command_hangs_probe_witness:
  "commands host_stalled_which ''which chronyd'' = Stalled \<and>
   fst (get_ntp_settings host_stalled_which) = Hangs \<and>
   commands host_stalled_ip ''ip -6 addr show'' = Stalled \<and>
   fst (get_ipv6_status host_stalled_ip) = Hangs \<and>
   fst (system_info_main host_stalled_ip) = Hangs"
proof -
  have st: "commands host_stalled_which ''which chronyd'' = Stalled"
    by (simp add: host_stalled_which_def)
  have ip: "commands host_stalled_ip ''ip -6 addr show'' = Stalled"
    by (simp add: host_stalled_ip_def)
  have l: "''ip -6 addr show'' \<in> set (snd (get_ipv6_status host_stalled_ip))"
    "''ip -6 addr show'' \<in> set (snd (system_info_main host_stalled_ip))"
    by code_simp+
  from st have 1: "fst (get_ntp_settings host_stalled_which) = Hangs"
    using stalled_command_hangs_probe [of host_stalled_which] by blast
  from ip l(1) have 2: "fst (get_ipv6_status host_stalled_ip) = Hangs"
    using stalled_command_hangs_probe [of host_stalled_ip] by blast
  from ip l(2) have 3: "fst (system_info_main host_stalled_ip) = Hangs"
    using stalled_command_hangs_probe [of host_stalled_ip] by blast
  from st ip 1 2 3 show ?thesis by (intro conjI)
qed

text \<open>
  A host on which \<open>which chronyd\<close> never exits: the collector and the module hang after that
  one command, where a missing binary gives the result of \<open>host_bare\<close>.
\<close>

theorem get_ntp_settings_stalled_hangs:
  "get_ntp_settings host_stalled_which = (Hangs, [''which chronyd'']) \<and>
   system_info_main host_stalled_which = (Hangs, [''which chronyd''])"
  by code_simp

section \<open>The module: all four fact blocks, or one failure\<close>

text \<open>
  Two faults of the source's own collectors: an undecodable resolver file raises
  \<open>UnicodeDecodeError\<close> past \<open>except IOError\<close>, and \<open>main\<close> reports it as the one failure;
  a tool that cannot be started ends the module inside \<open>run_command\<close>, past
  \<open>except Exception\<close>.
\<close>

lemma system_info_main_garbled_resolv:
  "get_dns_settings host_garbled_resolv =
     Raises (PyExc UnicodeDecodeError ''utf-8 codec cannot decode byte 0xff in position 0'') \<and>
   fst (system_info_main host_garbled_resolv) =
     Returns (Fail_json ''utf-8 codec cannot decode byte 0xff in position 0'')"
  by code_simp

lemma system_info_main_no_which:
  "system_info_main host_no_which =
     (Aborts ''[Errno 2] No such file or directory: which'', [''which chronyd''])"
  by code_simp

text \<open>
  C6. \<open>main\<close> runs the four collectors in sequence inside one \<open>try\<close>. Whatever the
  collectors are: when one of them raises (the ones before it having returned), the module
  ends with \<open>fail_json\<close> carrying that exception's message and nothing else; and when the
  module ends with \<open>exit_json\<close>, all four collectors have returned and the report holds
  their four results. \<open>system_info_main h\<close> is the instance at the collectors of the source.
\<close>

theorem main_fault_is_single_failure:
  "(fst sudo = Raises e \<longrightarrow>
      fst (try_main (run_collectors sudo ntp dns inet)) = Returns (Fail_json (str_exception e))) \<and>
   (fst sudo = Returns s \<and> fst ntp = Raises e \<longrightarrow>
      fst (try_main (run_collectors sudo ntp dns inet)) = Returns (Fail_json (str_exception e))) \<and>
   (fst sudo = Returns s \<and> fst ntp = Returns n \<and> fst dns = Raises e \<longrightarrow>
      fst (try_main (run_collectors sudo ntp dns inet)) = Returns (Fail_json (str_exception e))) \<and>
   (fst sudo = Returns s \<and> fst ntp = Returns n \<and> fst dns = Returns d \<and> fst inet = Raises e \<longrightarrow>
      fst (try_main (run_collectors sudo ntp dns inet)) = Returns (Fail_json (str_exception e))) \<and>
   (fst (try_main (run_collectors sudo ntp dns inet)) = Returns (Exit_json result) \<longrightarrow>
      fst sudo = Returns (sudo_users result) \<and> fst ntp = Returns (ntp_settings result) \<and>
      fst dns = Returns (dns_settings result) \<and> fst inet = Returns (ipv6_status result) \<and>
      changed result = False)"
  by (cases "fst sudo"; cases "fst ntp"; cases "fst dns"; cases "fst inet")
     (auto simp: try_main_def run_collectors_def bind_def ret_def)

lemma system_info_main_host_bare: "fst (system_info_main host_bare) = Returns (Exit_json \<lparr>changed = False, sudo_users = {},
       ntp_settings = \<lparr>service = ''unknown'', enabled = False, servers = [], status = ''unknown''\<rparr>,
       dns_settings = \<lparr>nameservers = [], search_domains = [], resolv_conf = ''/etc/resolv.conf''\<rparr>,
       ipv6_status = \<lparr>disabled = False, disable_method = [], sysctl_values = [], live_status = None\<rparr>\<rparr>)"
  by (simp add: system_info_main_def try_main_def run_collectors_def bind_def ret_def lift_def
      get_sudo_users_def sudoers_files_def os_path_exists_def open_read_def except_IOError_def
      get_ntp_settings_def check_chronyd_def check_ntpd_def check_timesyncd_def run_command_def
      get_dns_settings_def get_ipv6_status_def sysctl_params_def grub_files_def
      grub_file_check_def live_pass_def host_bare_def)

theorem main_fault_is_single_failure_witness:
  "fst (system_info_main host_locked_dropin) =
     Returns (Fail_json
       (''[Errno 13] Permission denied: '' @ [CHR 0x27] @ ''/etc/sudoers.d'' @ [CHR 0x27])) \<and>
   fst (try_main (run_collectors (Returns {''alice''}, [])
          (Raises (PyExc IndexError ''list index out of range''), [''which chronyd''])
          (lift (get_dns_settings host_bare)) (get_ipv6_status host_bare))) =
     Returns (Fail_json ''list index out of range'') \<and>
   fst (try_main (run_collectors (Returns {''alice''}, []) (get_ntp_settings host_bare)
          (Raises (PyExc IndexError ''list index out of range''), [])
          (get_ipv6_status host_bare))) =
     Returns (Fail_json ''list index out of range'') \<and>
   fst (try_main (run_collectors (Returns {''alice''}, []) (get_ntp_settings host_bare)
          (lift (get_dns_settings host_bare))
          (Raises (PyExc IndexError ''list index out of range''), []))) =
     Returns (Fail_json ''list index out of range'') \<and>
   fst (get_ipv6_status host_bare) =
     Returns \<lparr>disabled = False, disable_method = [], sysctl_values = [], live_status = None\<rparr>"
proof -
  let ?result = "\<lparr>changed = False, sudo_users = {},
       ntp_settings = \<lparr>service = ''unknown'', enabled = False, servers = [], status = ''unknown''\<rparr>,
       dns_settings = \<lparr>nameservers = [], search_domains = [], resolv_conf = ''/etc/resolv.conf''\<rparr>,
       ipv6_status = \<lparr>disabled = False, disable_method = [], sysctl_values = [], live_status = None\<rparr>\<rparr>"
  let ?exc = "PyExc IndexError ''list index out of range''"
  let ?denied = "PyExc PermissionError
       (''[Errno 13] Permission denied: '' @ [CHR 0x27] @ ''/etc/sudoers.d'' @ [CHR 0x27])"
  let ?ntp = "\<lparr>service = ''unknown'', enabled = False, servers = [], status = ''unknown''\<rparr>"
  let ?dns = "\<lparr>nameservers = [], search_domains = [], resolv_conf = ''/etc/resolv.conf''\<rparr>"
  have s0: "fst (lift (get_sudo_users host_locked_dropin)) = Raises ?denied" by code_simp
  have n: "fst (get_ntp_settings host_bare) = Returns ?ntp" by code_simp
  have d: "fst (lift (get_dns_settings host_bare)) = Returns ?dns" by code_simp
  have 1: "fst (system_info_main host_locked_dropin) = Returns (Fail_json (str_exception ?denied))"
    unfolding system_info_main_def
    using main_fault_is_single_failure [where sudo = "lift (get_sudo_users host_locked_dropin)" and e = ?denied,
        THEN conjunct1] s0
    by (rule mp)
  have p2: "fst (Returns {''alice''}, []::string list) = Returns {''alice''} \<and>
      fst (Raises ?exc, [''which chronyd'']) = Raises ?exc" by simp
  have 2: "fst (try_main (run_collectors (Returns {''alice''}, [])
          (Raises ?exc, [''which chronyd''])
          (lift (get_dns_settings host_bare)) (get_ipv6_status host_bare))) =
     Returns (Fail_json (str_exception ?exc))"
    using main_fault_is_single_failure [where sudo = "(Returns {''alice''}, [])" and s = "{''alice''}"
        and ntp = "(Raises ?exc, [''which chronyd''])" and e = ?exc,
        THEN conjunct2, THEN conjunct1] p2
    by (rule mp)
  have p3: "fst (Returns {''alice''}, []::string list) = Returns {''alice''} \<and>
      fst (get_ntp_settings host_bare) = Returns ?ntp \<and>
      fst (Raises ?exc, []::string list) = Raises ?exc" using n by simp
  have 3: "fst (try_main (run_collectors (Returns {''alice''}, []) (get_ntp_settings host_bare)
          (Raises ?exc, []) (get_ipv6_status host_bare))) =
     Returns (Fail_json (str_exception ?exc))"
    using main_fault_is_single_failure [where sudo = "(Returns {''alice''}, [])" and s = "{''alice''}"
        and ntp = "get_ntp_settings host_bare" and n = ?ntp
        and dns = "(Raises ?exc, [])" and e = ?exc,
        THEN conjunct2, THEN conjunct2, THEN conjunct1] p3
    by (rule mp)
  have p4: "fst (Returns {''alice''}, []::string list) = Returns {''alice''} \<and>
      fst (get_ntp_settings host_bare) = Returns ?ntp \<and>
      fst (lift (get_dns_settings host_bare)) = Returns ?dns \<and>
      fst (Raises ?exc, []::string list) = Raises ?exc" using n d by simp
  have 4: "fst (try_main (run_collectors (Returns {''alice''}, []) (get_ntp_settings host_bare)
          (lift (get_dns_settings host_bare)) (Raises ?exc, []))) =
     Returns (Fail_json (str_exception ?exc))"
    using main_fault_is_single_failure [where sudo = "(Returns {''alice''}, [])" and s = "{''alice''}"
        and ntp = "get_ntp_settings host_bare" and n = ?ntp
        and dns = "lift (get_dns_settings host_bare)" and d = ?dns
        and inet = "(Raises ?exc, [])" and e = ?exc,
        THEN conjunct2, THEN conjunct2, THEN conjunct2, THEN conjunct1] p4
    by (rule mp)
  have m: "str_exception ?exc = ''list index out of range''"
    "str_exception ?denied = ''[Errno 13] Permission denied: '' @ [CHR 0x27] @ ''/etc/sudoers.d'' @ [CHR 0x27]"
    by simp_all
  have "fst (get_ipv6_status host_bare) = Returns (ipv6_status ?result)"
    using main_fault_is_single_failure [where sudo = "lift (get_sudo_users host_bare)"
        and ntp = "get_ntp_settings host_bare" and dns = "lift (get_dns_settings host_bare)"
        and inet = "get_ipv6_status host_bare" and result = ?result,
        THEN conjunct2, THEN conjunct2, THEN conjunct2, THEN conjunct2, THEN mp,
        OF system_info_main_host_bare [unfolded system_info_main_def]]
    by (elim conjE)
  then have 5: "fst (get_ipv6_status host_bare) =
     Returns \<lparr>disabled = False, disable_method = [], sysctl_values = [], live_status = None\<rparr>"
    by simp
  from 1 2 3 4 5 show ?thesis unfolding m by (intro conjI)
qed

end
